theory Spec2Isabelle
  imports Main
begin

section \<open>JavaScript values, objects and errors\<close>

text \<open>
  The client (class \<open>Liaison\<close>) is TypeScript over the Fetch and Zod libraries. Values are
  modelled by one datatype. A function value is its identity (\<open>JFun f\<close>); what calling it
  does is given by the environment record below, one field per calling convention the
  source uses. A Zod schema is \<open>z.unknown()\<close> or a schema of the caller, again known by
  an identity. \<open>JBigInt\<close> is a BigInt, \<open>JCyclic\<close> an object that refers to itself, and
  \<open>JOpaque\<close> any other object (a \<open>Response\<close>).
\<close>

datatype schema = ZUnknown | ZUser nat

datatype jv =
    JUndefined | JNull | JBool bool | JNum int | JStr string
  | JArr "jv list" | JObj "(string \<times> jv) list"
  | JFun nat | JSchema schema | JBigInt int | JCyclic | JOpaque

text \<open>An object is a map from its own property names; \<open>{...a, ...b}\<close> is \<open>a ++ b\<close>.\<close>

type_synonym obj = "string \<Rightarrow> jv option"
type_synonym addr = nat

text \<open>Reading a property: an absent property reads as \<open>undefined\<close>.\<close>

definition get_prop :: "obj \<Rightarrow> string \<Rightarrow> jv" where
  "get_prop ob k = (case ob k of None \<Rightarrow> JUndefined | Some v \<Rightarrow> v)"

definition nullish :: "jv \<Rightarrow> bool" where
  "nullish v = (v = JUndefined \<or> v = JNull)"

text \<open>An \<open>Error\<close> instance (or one of a subclass) with its \<open>name\<close> and \<open>message\<close>;
  anything may be thrown, an \<open>Error\<close> or not.\<close>

datatype error = Error (err_name: string) (err_message: string)

datatype thrown = ErrorV error | OtherV jv

text \<open>Decimal rendering of a number, as a template literal does it.\<close>

definition digit :: "nat \<Rightarrow> char" where
  "digit d = char_of (48 + d)"

fun show_nat :: "nat \<Rightarrow> string" where
  "show_nat n = (if n < 10 then [digit n] else show_nat (n div 10) @ [digit (n mod 10)])"

declare show_nat.simps [simp del]

section \<open>URLs, requests and responses (Fetch)\<close>

text \<open>
  A URL is kept parsed: everything but the query in \<open>url_base\<close>, the query as the list of
  name-value pairs that \<open>url.searchParams\<close> exposes. A request is its URL and the
  \<open>RequestInit\<close> members it was built from (method, headers, body, ...). A response
  carries what each of its body readers would settle to.
\<close>

record url =
  url_base :: string
  url_search :: "(string \<times> string) list"

record request =
  req_url :: url
  req_init :: obj

record response =
  status :: nat
  statusText :: string
  rtype :: string
  content_type :: "string option"
  text_read :: "thrown + string"
  json_read :: "thrown + jv"

section \<open>Instances, the store and the environment\<close>

text \<open>
  An instance holds a reference to its \<open>partial\<close> config object, its \<open>extends\<close> link and
  (under its identity \<open>self\<close>) its three interceptor lists. Config objects live in a store,
  because the \<open>config\<close> getter writes to one. An \<open>AbortSignal\<close> is a flag and its
  once-only listeners; the listener \<open>addInterceptor\<close> installs is the triple
  (instance, event, callback) it closes over.
\<close>

datatype liaison = Liaison (self: nat) (partial: addr) (extends: "liaison option")

datatype event = EvRequest | EvResponse | EvError

datatype stage = AtRequest | AtResponse

record signal =
  aborted :: bool
  listeners :: "(nat \<times> event \<times> nat) list"

record 'u world =
  heap :: "addr \<Rightarrow> obj option"
  next_addr :: addr
  interceptors :: "nat \<Rightarrow> event \<Rightarrow> nat list"
  signals :: "nat \<Rightarrow> signal"
  user :: 'u

text \<open>
  Beside the world the model keeps a record of the calls it makes into interceptors
  and into the transport, out of reach of the callbacks, so that "is invoked" and
  "runs before" can be stated.
\<close>

datatype call = Intercepted event nat | Transported request

type_synonym 'u state = "'u world \<times> call list"

text \<open>
  The environment: what the caller's functions and the platform do. Every asynchronous
  operation is a transformer of the world, since other tasks run while it is awaited.
  \<open>parse_schema\<close> is \<open>parseAsync\<close> of a caller's schema under a contextual error map;
  \<open>transport\<close> is \<open>fetch\<close>; \<open>parse_url\<close> is the URL parser (against the platform's
  base URL); \<open>init_error\<close> is what the \<open>Request\<close> constructor throws for a given init;
  \<open>json_message\<close> is \<open>JSON.stringify\<close>, with what it returns as \<open>new Error\<close> receives it,
  or what it throws (a \<open>TypeError\<close> for a BigInt or a cyclic object); \<open>to_string\<close> is
  string conversion of a value that is not a string; \<open>get_stack\<close> is \<open>getStack()\<close>;
  \<open>body_rejects_first\<close> tells which of two failing validations \<open>Promise.all\<close> sees first.
\<close>

record 'u env =
  call_factory :: "nat \<Rightarrow> schema"
  call_override :: "nat \<Rightarrow> obj \<Rightarrow> thrown + obj"
  call_handler :: "nat \<Rightarrow> response \<Rightarrow> 'u world \<Rightarrow> (thrown + jv) \<times> 'u world"
  request_cb :: "nat \<Rightarrow> request \<Rightarrow> string option \<Rightarrow> 'u world \<Rightarrow> (thrown + request) \<times> 'u world"
  response_cb :: "nat \<Rightarrow> response \<Rightarrow> request \<Rightarrow> 'u world \<Rightarrow> (thrown + response) \<times> 'u world"
  error_cb :: "nat \<Rightarrow> error \<Rightarrow> request \<Rightarrow> stage \<Rightarrow> string option \<Rightarrow> 'u world \<Rightarrow> (thrown + error) \<times> 'u world"
  parse_schema :: "nat \<Rightarrow> jv \<Rightarrow> (string \<Rightarrow> string) \<Rightarrow> 'u world \<Rightarrow> (thrown + jv) \<times> 'u world"
  transport :: "request \<Rightarrow> 'u world \<Rightarrow> (thrown + response) \<times> 'u world"
  parse_url :: "string \<Rightarrow> url option"
  init_error :: "obj \<Rightarrow> thrown option"
  json_message :: "jv \<Rightarrow> thrown + string"
  to_string :: "jv \<Rightarrow> string"
  get_stack :: "string option"
  body_rejects_first :: "'u world \<Rightarrow> bool"

text \<open>References never dangle; a missing address reads as the empty object.\<close>

definition deref :: "(addr \<Rightarrow> obj option) \<Rightarrow> addr \<Rightarrow> obj" where
  "deref h a = (case h a of None \<Rightarrow> Map.empty | Some ob \<Rightarrow> ob)"

definition alloc :: "obj \<Rightarrow> 'u world \<Rightarrow> addr \<times> 'u world" where
  "alloc ob w = (next_addr w, w\<lparr>heap := (heap w)(next_addr w \<mapsto> ob), next_addr := Suc (next_addr w)\<rparr>)"

section \<open>The \<open>config\<close> getter\<close>

text \<open>
  \<^verbatim>\<open>let ext = this.extends; let opts = this.partial
  while (ext) { opts = { ...ext.partial, ...opts }; ext = ext.extends }\<close>
  \<open>spread_chain\<close> is the loop, on the contents of \<open>opts\<close>.
\<close>

fun spread_chain :: "(addr \<Rightarrow> obj option) \<Rightarrow> liaison option \<Rightarrow> obj \<Rightarrow> obj" where
  "spread_chain h None opts = opts"
| "spread_chain h (Some (Liaison i p e)) opts = spread_chain h e (deref h p ++ opts)"

text \<open>
  \<^verbatim>\<open>opts[key] ??= z.unknown()
  if (typeof opts[key] === "function") opts[key] = opts[key](z)\<close>
\<close>

definition materialize :: "'u env \<Rightarrow> jv \<Rightarrow> jv" where
  "materialize env v =
     (let v1 = (if nullish v then JSchema ZUnknown else v)
      in case v1 of JFun f \<Rightarrow> JSchema (call_factory env f) | _ \<Rightarrow> v1)"

definition set_schema :: "'u env \<Rightarrow> string \<Rightarrow> obj \<Rightarrow> obj" where
  "set_schema env key opts = opts(key \<mapsto> materialize env (get_prop opts key))"

definition schema_keys :: "string list" where
  "schema_keys = [''params'', ''body'', ''response'']"

definition set_schemas :: "'u env \<Rightarrow> obj \<Rightarrow> obj" where
  "set_schemas env opts = foldl (\<lambda>ob key. set_schema env key ob) opts schema_keys"

text \<open>
  When the instance extends nothing the loop body never runs, \<open>opts\<close> is still the very
  object \<open>this.partial\<close>, and the schema keys are written into it. Otherwise \<open>opts\<close> is
  a fresh object.
\<close>

definition config :: "'u env \<Rightarrow> liaison \<Rightarrow> 'u world \<Rightarrow> addr \<times> 'u world" where
  "config env this w =
     (case extends this of
        None \<Rightarrow>
          (partial this,
           w\<lparr>heap := (heap w)(partial this \<mapsto> set_schemas env (deref (heap w) (partial this)))\<rparr>)
      | Some ext \<Rightarrow>
          alloc (set_schemas env (spread_chain (heap w) (Some ext) (deref (heap w) (partial this)))) w)"

text \<open>The claim's reading: the value of the instance nearest the leaf that defines \<open>k\<close>.\<close>

fun closest :: "(addr \<Rightarrow> obj option) \<Rightarrow> liaison \<Rightarrow> string \<Rightarrow> jv option" where
  "closest h (Liaison i p e) k =
     (case deref h p k of
        Some v \<Rightarrow> Some v
      | None \<Rightarrow> (case e of None \<Rightarrow> None | Some ext \<Rightarrow> closest h ext k))"

section \<open>The interceptor registry\<close>








section \<open>The \<open>chain\<close> getter and the pipelines\<close>

text \<open>
  \<^verbatim>\<open>while (current) { instances.push(current); current = current.extends }\<close>
\<close>

fun instances :: "liaison \<Rightarrow> liaison list" where
  "instances (Liaison i p None) = [Liaison i p None]"
| "instances (Liaison i p (Some e)) = Liaison i p (Some e) # instances e"

text \<open>
  \<^verbatim>\<open>instances.reverse().reduce((a, e, i) => {
      a[`${i}-${e.partial.name ?? "unnamed"}`] = e; return a }, {})\<close>
  The result is an object, here the list of its properties in the order \<open>Object.values\<close>
  lists them: no key is an array index (each holds a \<open>-\<close>), so that is the order of
  creation. Assigning to a key that exists replaces its value in place.
\<close>

fun assign :: "(string \<times> 'a) list \<Rightarrow> string \<Rightarrow> 'a \<Rightarrow> (string \<times> 'a) list" where
  "assign [] k v = [(k, v)]"
| "assign ((k', v') # kvs) k v =
     (if k' = k then (k', v) # kvs else (k', v') # assign kvs k v)"

definition template :: "'u env \<Rightarrow> jv \<Rightarrow> string" where
  "template env v = (case v of JStr s \<Rightarrow> s | _ \<Rightarrow> to_string env v)"

definition chain_key :: "'u env \<Rightarrow> 'u world \<Rightarrow> nat \<Rightarrow> liaison \<Rightarrow> string" where
  "chain_key env w i e =
     (let name = get_prop (deref (heap w) (partial e)) ''name''
      in show_nat i @ ''-'' @ template env (if nullish name then JStr ''unnamed'' else name))"

definition chain :: "'u env \<Rightarrow> liaison \<Rightarrow> 'u world \<Rightarrow> (string \<times> liaison) list" where
  "chain env this w =
     foldl (\<lambda>a (i, e). assign a (chain_key env w i e) e) [] (enumerate 0 (rev (instances this)))"

text \<open>
  \<^verbatim>\<open>Object.values(chain).map(e => (isLiaison(e) ? e.interceptors[event] : [])).flat()\<close>
  Every member of a chain is an instance.
\<close>

definition getInterceptors :: "'u env \<Rightarrow> liaison \<Rightarrow> event \<Rightarrow> 'u world \<Rightarrow> nat list" where
  "getInterceptors env this ev w =
     concat (map (\<lambda>e. interceptors w (self e) ev) (map snd (chain env this w)))"

text \<open>
  \<^verbatim>\<open>(acc, ...ctx) => cbs.reduce(async (a, e) => e(await a, ...ctx), Promise.resolve(acc))\<close>
  The accumulator is a promise: settled to a value, or rejected. Awaiting a rejected
  one rethrows, so the callback \<open>e\<close> is not called. \<open>invoke\<close> notes the call.
\<close>

definition invoke ::
  "event \<Rightarrow> nat \<Rightarrow> ('u world \<Rightarrow> 'r \<times> 'u world) \<Rightarrow> 'u state \<Rightarrow> 'r \<times> 'u state" where
  "invoke ev cb f st = (case f (fst st) of (r, w') \<Rightarrow> (r, (w', snd st @ [Intercepted ev cb])))"

definition reduce_async ::
  "event \<Rightarrow> (nat \<Rightarrow> 'a \<Rightarrow> 'u world \<Rightarrow> (thrown + 'a) \<times> 'u world) \<Rightarrow> nat list \<Rightarrow> 'a \<Rightarrow> 'u state
     \<Rightarrow> (thrown + 'a) \<times> 'u state" where
  "reduce_async ev cb cbs acc st =
     foldl (\<lambda>a e. case fst a of Inl t \<Rightarrow> a | Inr v \<Rightarrow> invoke ev e (cb e v) (snd a)) (Inr acc, st) cbs"

definition createErrorPipe ::
  "'u env \<Rightarrow> nat list \<Rightarrow> error \<Rightarrow> request \<Rightarrow> stage \<Rightarrow> string option \<Rightarrow> 'u state
     \<Rightarrow> (thrown + error) \<times> 'u state" where
  "createErrorPipe env cbs acc req stg stack =
     reduce_async EvError (\<lambda>e a. error_cb env e a req stg stack) cbs acc"

definition createRequestPipe ::
  "'u env \<Rightarrow> nat list \<Rightarrow> request \<Rightarrow> string option \<Rightarrow> 'u state \<Rightarrow> (thrown + request) \<times> 'u state" where
  "createRequestPipe env cbs acc stack =
     reduce_async EvRequest (\<lambda>e a. request_cb env e a stack) cbs acc"

definition createResponsePipe ::
  "'u env \<Rightarrow> nat list \<Rightarrow> response \<Rightarrow> request \<Rightarrow> 'u state \<Rightarrow> (thrown + response) \<times> 'u state" where
  "createResponsePipe env cbs acc req =
     reduce_async EvResponse (\<lambda>e a. response_cb env e a req) cbs acc"

text \<open>The getters \<open>#requestPipe\<close>, \<open>#responsePipe\<close> and \<open>#errorPipe\<close>: each reads the
  lists of the chain when it is evaluated.\<close>

definition requestPipe ::
  "'u env \<Rightarrow> liaison \<Rightarrow> 'u world \<Rightarrow> request \<Rightarrow> string option \<Rightarrow> 'u state \<Rightarrow> (thrown + request) \<times> 'u state" where
  "requestPipe env this w = createRequestPipe env (getInterceptors env this EvRequest w)"

definition responsePipe ::
  "'u env \<Rightarrow> liaison \<Rightarrow> 'u world \<Rightarrow> response \<Rightarrow> request \<Rightarrow> 'u state \<Rightarrow> (thrown + response) \<times> 'u state" where
  "responsePipe env this w = createResponsePipe env (getInterceptors env this EvResponse w)"

definition errorPipe ::
  "'u env \<Rightarrow> liaison \<Rightarrow> 'u world \<Rightarrow> error \<Rightarrow> request \<Rightarrow> stage \<Rightarrow> string option \<Rightarrow> 'u state
     \<Rightarrow> (thrown + error) \<times> 'u state" where
  "errorPipe env this w = createErrorPipe env (getInterceptors env this EvError w)"

section \<open>Errors, requests and URL parameters\<close>

text \<open>
  \<^verbatim>\<open>if (error instanceof Error) return error
  return new Error(JSON.stringify(error))\<close>
  \<open>JSON.stringify\<close> throws for some values, and then so does \<open>coerceError\<close>.
\<close>

definition coerceError :: "'u env \<Rightarrow> thrown \<Rightarrow> thrown + error" where
  "coerceError env t =
     (case t of
        ErrorV e \<Rightarrow> Inr e
      | OtherV v \<Rightarrow>
          (case json_message env v of
             Inl t' \<Rightarrow> Inl t'
           | Inr m \<Rightarrow> Inr (Error ''Error'' m)))"

text \<open>A \<open>TypeError\<close> of the platform; its message differs between engines.\<close>

definition type_error :: "string \<Rightarrow> thrown" where
  "type_error m = ErrorV (Error ''TypeError'' m)"

text \<open>
  \<open>new Request(input, init)\<close>: the input is a string (parsed as a URL), a URL or a
  request (whose members \<open>init\<close> overrides). The constructor throws when the URL does not
  parse, and for the inits the platform refuses.
\<close>

datatype request_info = FromString string | FromURL url | FromRequest request

definition new_Request :: "'u env \<Rightarrow> request_info \<Rightarrow> obj \<Rightarrow> thrown + request" where
  "new_Request env info ini =
     (case (case info of
              FromString s \<Rightarrow>
                (case parse_url env s of
                   None \<Rightarrow> Inl (type_error ''Invalid URL'')
                 | Some u \<Rightarrow> Inr (u, Map.empty))
            | FromURL u \<Rightarrow> Inr (u, Map.empty)
            | FromRequest r \<Rightarrow> Inr (req_url r, req_init r)) of
        Inl t \<Rightarrow> Inl t
      | Inr (u, base) \<Rightarrow>
          (case init_error env (base ++ ini) of
             Some t \<Rightarrow> Inl t
           | None \<Rightarrow> Inr \<lparr>req_url = u, req_init = base ++ ini\<rparr>))"

text \<open>Validated params have the type \<open>Record<string, string | string[]>\<close>: the entries
  of the record in the order \<open>Object.entries\<close> lists them.\<close>

datatype param_value = PStr string | PArr "string list"

type_synonym params = "(string \<times> param_value) list"

text \<open>\<open>[value].flat()\<close>\<close>

fun flat1 :: "param_value \<Rightarrow> string list" where
  "flat1 (PStr s) = [s]"
| "flat1 (PArr vs) = vs"

text \<open>\<open>url.searchParams.append(key, v)\<close>\<close>

definition append_param :: "url \<Rightarrow> string \<Rightarrow> string \<Rightarrow> url" where
  "append_param u key v = u\<lparr>url_search := url_search u @ [(key, v)]\<rparr>"

text \<open>
  \<^verbatim>\<open>const req = new Request(info); const url = new URL(req.url)
  for (const [key, value] of Object.entries(params))
    for (const v of [value].flat()) url.searchParams.append(key, v)
  return new Request(url)\<close>
  The URL of a request parses back to itself.
\<close>

definition setUrlParams :: "'u env \<Rightarrow> request_info \<Rightarrow> params \<Rightarrow> thrown + request" where
  "setUrlParams env info ps =
     (case new_Request env info Map.empty of
        Inl t \<Rightarrow> Inl t
      | Inr req \<Rightarrow>
          new_Request env
            (FromURL (foldl (\<lambda>u (key, value). foldl (\<lambda>u' v. append_param u' key v) u (flat1 value))
                        (req_url req) ps))
            Map.empty)"





fun join :: "string \<Rightarrow> string list \<Rightarrow> string" where
  "join sep [] = []"
| "join sep [x] = x"
| "join sep (x # y # ys) = x @ sep @ join sep (y # ys)"


section \<open>Schemas and validation\<close>

text \<open>
  \<^verbatim>\<open>errorMap: ({}, ctx) => ({ message: `${schemaType} schema | ${ctx.defaultError}` })\<close>
  Zod builds the message of an issue by passing its default message through the error
  map of the schema and then through the one given to \<open>parseAsync\<close>. A \<open>ZodError\<close> is
  kept with the message of its issue.
\<close>

definition addErrorMap :: "string \<Rightarrow> string \<Rightarrow> string" where
  "addErrorMap schemaType defaultError = schemaType @ '' schema | '' @ defaultError"

definition zod_error :: "string \<Rightarrow> thrown" where
  "zod_error m = ErrorV (Error ''ZodError'' m)"

definition parseAsync ::
  "'u env \<Rightarrow> schema \<Rightarrow> jv \<Rightarrow> (string \<Rightarrow> string) \<Rightarrow> 'u world \<Rightarrow> (thrown + jv) \<times> 'u world" where
  "parseAsync env s v emap w =
     (case s of ZUnknown \<Rightarrow> (Inr v, w) | ZUser n \<Rightarrow> parse_schema env n v emap w)"

text \<open>
  \<^verbatim>\<open>z.union([z.undefined(), z.record(z.union([z.array(z.string()), z.string()]))],
    { errorMap: ({}, ctx) => ({ message: `URL param schema must produce a value that
      can be serializable. (Record<string, string | string[]>) | ${ctx.defaultError}` }) })
   .transform(v => v ?? {})\<close>
  \<open>invalid_union\<close> is Zod's default message for a union no member of which accepts.
\<close>

fun strings_of :: "jv list \<Rightarrow> string list option" where
  "strings_of [] = Some []"
| "strings_of (JStr s # vs) = map_option ((#) s) (strings_of vs)"
| "strings_of (_ # vs) = None"

fun param_value_of :: "jv \<Rightarrow> param_value option" where
  "param_value_of (JArr vs) = map_option PArr (strings_of vs)"
| "param_value_of (JStr s) = Some (PStr s)"
| "param_value_of _ = None"

fun record_of :: "(string \<times> jv) list \<Rightarrow> params option" where
  "record_of [] = Some []"
| "record_of ((k, v) # kvs) =
     (case param_value_of v of
        None \<Rightarrow> None
      | Some pv \<Rightarrow> map_option ((#) (k, pv)) (record_of kvs))"

definition invalid_union :: string where
  "invalid_union = ''Invalid input''"

definition serial_message :: "string \<Rightarrow> string" where
  "serial_message defaultError =
     ''URL param schema must produce a value that can be serializable. (Record<string, string | string[]>) | ''
       @ defaultError"

definition baseParamSchema :: "jv \<Rightarrow> string + params" where
  "baseParamSchema v =
     (case v of
        JUndefined \<Rightarrow> Inr []
      | JObj kvs \<Rightarrow>
          (case record_of kvs of
             Some ps \<Rightarrow> Inr ps
           | None \<Rightarrow> Inl (serial_message invalid_union))
      | _ \<Rightarrow> Inl (serial_message invalid_union))"

text \<open>\<open>paramSchema.pipe(baseParamSchema).parseAsync(paramsInput, addErrorMap("URL params"))\<close>\<close>

definition parse_params ::
  "'u env \<Rightarrow> schema \<Rightarrow> jv \<Rightarrow> 'u world \<Rightarrow> (thrown + params) \<times> 'u world" where
  "parse_params env s v w =
     (case parseAsync env s v (addErrorMap ''URL params'') w of
        (Inl t, w') \<Rightarrow> (Inl t, w')
      | (Inr out, w') \<Rightarrow>
          (case baseParamSchema out of
             Inl m \<Rightarrow> (Inl (zod_error (addErrorMap ''URL params'' m)), w')
           | Inr ps \<Rightarrow> (Inr ps, w')))"

text \<open>
  \<open>Promise.all\<close> of the two validations. Both are started, params first; the result
  rejects with the failure of whichever fails first. The model lets both finish.
\<close>

definition validate ::
  "'u env \<Rightarrow> schema \<Rightarrow> schema \<Rightarrow> jv \<Rightarrow> jv \<Rightarrow> 'u world \<Rightarrow> (thrown + params \<times> jv) \<times> 'u world" where
  "validate env ps bs paramsInput bodyInput w =
     (case parse_params env ps paramsInput w of (rp, w1) \<Rightarrow>
        (case parseAsync env bs bodyInput (addErrorMap ''Body'') w1 of (rb, w2) \<Rightarrow>
           ((case rp of
               Inr params \<Rightarrow> (case rb of Inr body \<Rightarrow> Inr (params, body) | Inl e \<Rightarrow> Inl e)
             | Inl e1 \<Rightarrow>
                 (case rb of
                    Inr body \<Rightarrow> Inl e1
                  | Inl e2 \<Rightarrow> Inl (if body_rejects_first env w2 then e2 else e1))),
            w2)))"

section \<open>Status check and unwrapping\<close>

text \<open>\<open>res.ok\<close> is the Fetch standard's: the status is in the range 200 to 299.\<close>

definition ok :: "response \<Rightarrow> bool" where
  "ok res = (200 \<le> status res \<and> status res \<le> 299)"

text \<open>
  \<^verbatim>\<open>if (res.ok) return res
  throw new Error([`code: ${res.status}`, `type: ${res.type}`, `text: "${res.statusText}`,
    `server-response: ${await res.text()}`].join(", "))\<close>
\<close>

definition status_message :: "response \<Rightarrow> string \<Rightarrow> string" where
  "status_message res body =
     join '', ''
       [''code: '' @ show_nat (status res),
        ''type: '' @ rtype res,
        ''text: '' @ [CHR 0x22] @ statusText res,
        ''server-response: '' @ body]"

definition handleServerError :: "response \<Rightarrow> thrown + response" where
  "handleServerError res =
     (if ok res then Inr res
      else case text_read res of
             Inl t \<Rightarrow> Inl t
           | Inr body \<Rightarrow> Inl (ErrorV (Error ''Error'' (status_message res body))))"

text \<open>\<open>s.includes(p)\<close>\<close>

fun includes_str :: "string \<Rightarrow> string \<Rightarrow> bool" where
  "includes_str [] p = (p = [])"
| "includes_str (c # cs) p = (take (length p) (c # cs) = p \<or> includes_str cs p)"

text \<open>
  \<^verbatim>\<open>const type = response.headers.get("content-type") ?? ""
  const unwrap = type.includes("application/json") ? "json" : "text"
  return response[unwrap]()\<close>
\<close>

definition unwrapRespone :: "response \<Rightarrow> thrown + jv" where
  "unwrapRespone res =
     (let type = (case content_type res of None \<Rightarrow> [] | Some t \<Rightarrow> t)
      in if includes_str type ''application/json'' then json_read res
         else (case text_read res of Inl t \<Rightarrow> Inl t | Inr s \<Rightarrow> Inr (JStr s)))"

text \<open>\<open>.then(handleResponse ?? unwrapRespone)\<close>: \<open>then\<close> passes the response on when
  given something that cannot be called.\<close>

definition unwrap_step ::
  "'u env \<Rightarrow> jv \<Rightarrow> response \<Rightarrow> 'u world \<Rightarrow> (thrown + jv) \<times> 'u world" where
  "unwrap_step env handleResponse res w =
     (if nullish handleResponse then (unwrapRespone res, w)
      else case handleResponse of
             JFun f \<Rightarrow> call_handler env f res w
           | _ \<Rightarrow> (Inr JOpaque, w))"

text \<open>\<open>responseSchema.parseAsync(res, addErrorMap("Response"))\<close>\<close>

definition parse_response ::
  "'u env \<Rightarrow> jv \<Rightarrow> jv \<Rightarrow> 'u world \<Rightarrow> (thrown + jv) \<times> 'u world" where
  "parse_response env responseSchema v w =
     (case responseSchema of
        JSchema s \<Rightarrow> parseAsync env s v (addErrorMap ''Response'') w
      | _ \<Rightarrow> (Inl (type_error ''responseSchema.parseAsync is not a function''), w))"

section \<open>The call: \<open>#fetch\<close>, \<open>go\<close> and \<open>safeGo\<close>\<close>

text \<open>
  \<open>callConfig.override?.(instanceConfig)\<close>: nothing when \<open>override\<close> is null or
  undefined, a call when it is a function; the call of anything else throws a
  \<open>TypeError\<close>. The result is spread, so nothing stands for \<open>undefined\<close>.
\<close>

definition override_fragment :: "'u env \<Rightarrow> jv \<Rightarrow> obj \<Rightarrow> thrown + obj" where
  "override_fragment env override instanceConfig =
     (if nullish override then Inr Map.empty
      else case override of
             JFun f \<Rightarrow> call_override env f instanceConfig
           | _ \<Rightarrow> Inl (type_error ''callConfig.override is not a function''))"

text \<open>
  \<^verbatim>\<open>const { params: paramSchema, body: bodySchema, response: responseSchema,
          handleResponse, ...instanceConfigRest } = instanceConfig
  const { body: bodyInput, params: paramsInput, url: stringUrl = "somehow ...",
          ...nativeConfig } = { ...instanceConfigRest, ...callConfig, ...callConfigOverrides }\<close>
\<close>

definition without :: "obj \<Rightarrow> string list \<Rightarrow> obj" where
  "without ob ks = ob |` (- set ks)"

definition merge_config :: "obj \<Rightarrow> obj \<Rightarrow> obj \<Rightarrow> obj" where
  "merge_config instanceConfig callConfig callConfigOverrides =
     without instanceConfig [''params'', ''body'', ''response'', ''handleResponse'']
       ++ callConfig ++ callConfigOverrides"

definition missing_url :: string where
  "missing_url = ''somehow a missing URL found its way''"

definition string_url :: "'u env \<Rightarrow> obj \<Rightarrow> string" where
  "string_url env merged =
     (let u = get_prop merged ''url''
      in if u = JUndefined then missing_url else template env u)"

definition native_config :: "obj \<Rightarrow> obj" where
  "native_config merged = without merged [''body'', ''params'', ''url'']"

text \<open>\<open>new Request(setUrlParams(stringUrl, params), { ...nativeConfig, body })\<close>\<close>

definition build :: "'u env \<Rightarrow> string \<Rightarrow> obj \<Rightarrow> params \<Rightarrow> jv \<Rightarrow> thrown + request" where
  "build env stringUrl nativeConfig params body =
     (case setUrlParams env (FromString stringUrl) params of
        Inl t \<Rightarrow> Inl t
      | Inr r \<Rightarrow> new_Request env (FromRequest r) (nativeConfig(''body'' \<mapsto> body)))"

text \<open>What the call has in hand once its synchronous start is over.\<close>

record prepared =
  paramSchema :: schema
  bodySchema :: schema
  responseSchema :: jv
  handleResponse :: jv
  bodyInput :: jv
  paramsInput :: jv
  stringUrl :: string
  nativeConfig :: obj
  initialRequest :: request

definition schema_of :: "jv \<Rightarrow> schema option" where
  "schema_of v = (case v of JSchema s \<Rightarrow> Some s | _ \<Rightarrow> None)"

text \<open>
  The start of \<open>#fetch\<close>, up to \<open>let currentRequest = new Request(stringUrl, nativeConfig)\<close>
  and the two \<open>parseAsync\<close> calls being made. It runs before any promise chain exists:
  what is thrown here rejects the call as it is. By their type the resolved \<open>params\<close>
  and \<open>body\<close> are schemas; on any other value the method call throws a \<open>TypeError\<close>.
\<close>

definition prepare :: "'u env \<Rightarrow> liaison \<Rightarrow> obj \<Rightarrow> 'u world \<Rightarrow> (thrown + prepared) \<times> 'u world" where
  "prepare env this callConfig w =
     (case config env this w of (a, w1) \<Rightarrow>
        (let instanceConfig = deref (heap w1) a
         in case override_fragment env (get_prop callConfig ''override'') instanceConfig of
              Inl t \<Rightarrow> (Inl t, w1)
            | Inr callConfigOverrides \<Rightarrow>
                (let merged = merge_config instanceConfig callConfig callConfigOverrides
                 in case new_Request env (FromString (string_url env merged)) (native_config merged) of
                      Inl t \<Rightarrow> (Inl t, w1)
                    | Inr currentRequest \<Rightarrow>
                        (case schema_of (get_prop instanceConfig ''params'') of
                           None \<Rightarrow> (Inl (type_error ''paramSchema.pipe is not a function''), w1)
                         | Some ps \<Rightarrow>
                             (case schema_of (get_prop instanceConfig ''body'') of
                                None \<Rightarrow> (Inl (type_error ''bodySchema.parseAsync is not a function''), w1)
                              | Some bs \<Rightarrow>
                                  (Inr \<lparr>paramSchema = ps, bodySchema = bs,
                                        responseSchema = get_prop instanceConfig ''response'',
                                        handleResponse = get_prop instanceConfig ''handleResponse'',
                                        bodyInput = get_prop merged ''body'',
                                        paramsInput = get_prop merged ''params'',
                                        stringUrl = string_url env merged,
                                        nativeConfig = native_config merged,
                                        initialRequest = currentRequest\<rparr>, w1))))))"

text \<open>
  \<^verbatim>\<open>Promise.all([...]).then(([params, body]) => { currentRequest = new Request(...); return currentRequest })
    .then(async req => (currentRequest = await this.#requestPipe(req, stack)))\<close>
  The result comes with \<open>currentRequest\<close> as it then stands. The getter
  \<open>this.#requestPipe\<close> is evaluated inside the second \<open>then\<close>.
\<close>

definition request_stage ::
  "'u env \<Rightarrow> liaison \<Rightarrow> prepared \<Rightarrow> 'u state \<Rightarrow> ((thrown + request) \<times> request) \<times> 'u state" where
  "request_stage env this c st =
     (case validate env (paramSchema c) (bodySchema c) (paramsInput c) (bodyInput c) (fst st) of
        (Inl t, w1) \<Rightarrow> ((Inl t, initialRequest c), (w1, snd st))
      | (Inr (params, body), w1) \<Rightarrow>
          (case build env (stringUrl c) (nativeConfig c) params body of
             Inl t \<Rightarrow> ((Inl t, initialRequest c), (w1, snd st))
           | Inr built \<Rightarrow>
               (case requestPipe env this w1 built (get_stack env) (w1, snd st) of
                  (Inl t, st2) \<Rightarrow> ((Inl t, built), st2)
                | (Inr req, st2) \<Rightarrow> ((Inr req, req), st2))))"

text \<open>
  \<^verbatim>\<open>fetch(finalRequest).then(handleServerError)
    .then(res => this.#responsePipe(res, finalRequest))
    .then(handleResponse ?? unwrapRespone)
    .then(res => responseSchema.parseAsync(res, addErrorMap("Response")))\<close>
  The getter \<open>this.#responsePipe\<close> is evaluated inside its \<open>then\<close>; the pipeline is given
  the response and the final request, and no stack.
\<close>

definition response_stage ::
  "'u env \<Rightarrow> liaison \<Rightarrow> prepared \<Rightarrow> request \<Rightarrow> 'u state \<Rightarrow> (thrown + jv) \<times> 'u state" where
  "response_stage env this c finalRequest st =
     (case transport env finalRequest (fst st) of
        (Inl t, w1) \<Rightarrow> (Inl t, (w1, snd st @ [Transported finalRequest]))
      | (Inr res, w1) \<Rightarrow>
          (let st1 = (w1, snd st @ [Transported finalRequest])
           in case handleServerError res of
                Inl t \<Rightarrow> (Inl t, st1)
              | Inr res1 \<Rightarrow>
                  (case responsePipe env this w1 res1 finalRequest st1 of
                     (Inl t, st2) \<Rightarrow> (Inl t, st2)
                   | (Inr res2, st2) \<Rightarrow>
                       (case unwrap_step env (handleResponse c) res2 (fst st2) of
                          (Inl t, w3) \<Rightarrow> (Inl t, (w3, snd st2))
                        | (Inr v, w3) \<Rightarrow>
                            (case parse_response env (responseSchema c) v w3 of
                               (r, w4) \<Rightarrow> (r, (w4, snd st2)))))))"

text \<open>
  \<^verbatim>\<open>.catch(async err => {
      const coercedError = coerceError(err)
      throw await this.#errorPipe(coercedError, currentRequest, "request", stack) })\<close>
  What is thrown: what \<open>coerceError\<close> throws, before the pipeline is reached; or else the
  value the pipeline settles to, or what it rejects with.
\<close>

definition error_path ::
  "'u env \<Rightarrow> liaison \<Rightarrow> thrown \<Rightarrow> request \<Rightarrow> stage \<Rightarrow> 'u state \<Rightarrow> thrown \<times> 'u state" where
  "error_path env this err req stg st =
     (case coerceError env err of
        Inl t \<Rightarrow> (t, st)
      | Inr coercedError \<Rightarrow>
          (case errorPipe env this (fst st) coercedError req stg (get_stack env) st of
             (Inl t, st') \<Rightarrow> (t, st')
           | (Inr e, st') \<Rightarrow> (ErrorV e, st')))"

definition fetch :: "'u env \<Rightarrow> liaison \<Rightarrow> obj \<Rightarrow> 'u state \<Rightarrow> (thrown + jv) \<times> 'u state" where
  "fetch env this callConfig st =
     (case prepare env this callConfig (fst st) of
        (Inl t, w1) \<Rightarrow> (Inl t, (w1, snd st))
      | (Inr c, w1) \<Rightarrow>
          (case request_stage env this c (w1, snd st) of
             ((Inl err, currentRequest), st2) \<Rightarrow>
               (case error_path env this err currentRequest AtRequest st2 of
                  (t, st3) \<Rightarrow> (Inl t, st3))
           | ((Inr finalRequest, currentRequest), st2) \<Rightarrow>
               (case response_stage env this c finalRequest st2 of
                  (Inl err, st3) \<Rightarrow>
                    (case error_path env this err finalRequest AtResponse st3 of
                       (t, st4) \<Rightarrow> (Inl t, st4))
                | (Inr v, st3) \<Rightarrow> (Inr v, st3))))"

text \<open>\<open>go\<close> returns the promise of \<open>#fetch\<close>.\<close>

definition go :: "'u env \<Rightarrow> liaison \<Rightarrow> obj \<Rightarrow> 'u state \<Rightarrow> (thrown + jv) \<times> 'u state" where
  "go env this callConfig st = fetch env this callConfig st"

text \<open>
  \<^verbatim>\<open>try { return [await this.#fetch(config), null] }
  catch (error) { return [null, coerceError(error)] }\<close>
  The pair is the two-element array; \<open>None\<close> in its second place is \<open>null\<close>. What
  \<open>coerceError\<close> throws inside the \<open>catch\<close> rejects \<open>safeGo\<close>.
\<close>

definition safeGo ::
  "'u env \<Rightarrow> liaison \<Rightarrow> obj \<Rightarrow> 'u state \<Rightarrow> (thrown + jv \<times> thrown option) \<times> 'u state" where
  "safeGo env this callConfig st =
     (case fetch env this callConfig st of
        (Inr v, st') \<Rightarrow> (Inr (v, None), st')
      | (Inl error, st') \<Rightarrow>
          (case coerceError env error of
             Inl t \<Rightarrow> (Inl t, st')
           | Inr e \<Rightarrow> (Inr (JNull, Some (ErrorV e)), st')))"

section \<open>Example instances and environments\<close>

text \<open>A plain environment: factory \<open>f\<close> makes the schema \<open>ZUser f\<close>, every schema
  accepts and every callback passes its input on, the transport answers 200 with a
  JSON body, a URL string parses as a base without a query. Its \<open>json_message\<close> is
  right on strings that need no escape, booleans, null, undefined, functions, objects
  with no member to list, and what cannot be serialised (a BigInt, a cyclic object); the
  examples need no more.\<close>

definition res200 :: response where
  "res200 = \<lparr>status = 200, statusText = ''OK'', rtype = ''basic'',
             content_type = Some ''application/json'',
             text_read = Inr ''{}'', json_read = Inr (JObj [(''ok'', JBool True)])\<rparr>"

definition env0 :: "unit env" where
  "env0 = \<lparr>call_factory = ZUser,
           call_override = (\<lambda>f ob. Inr Map.empty),
           call_handler = (\<lambda>f res w. (Inr JNull, w)),
           request_cb = (\<lambda>f req stack w. (Inr req, w)),
           response_cb = (\<lambda>f res req w. (Inr res, w)),
           error_cb = (\<lambda>f e req stg stack w. (Inr e, w)),
           parse_schema = (\<lambda>n v emap w. (Inr v, w)),
           transport = (\<lambda>req w. (Inr res200, w)),
           parse_url = (\<lambda>s. Some \<lparr>url_base = s, url_search = []\<rparr>),
           init_error = (\<lambda>ini. None),
           json_message = (\<lambda>v. case v of
                JStr s \<Rightarrow> Inr ([CHR 0x22] @ s @ [CHR 0x22])
              | JBigInt n \<Rightarrow> Inl (ErrorV (Error ''TypeError'' ''Do not know how to serialize a BigInt''))
              | JCyclic \<Rightarrow> Inl (ErrorV (Error ''TypeError'' ''Converting circular structure to JSON''))
              | JOpaque \<Rightarrow> Inr ''{}''
              | JNull \<Rightarrow> Inr ''null''
              | JFun f \<Rightarrow> Inr []
              | JUndefined \<Rightarrow> Inr []
              | JBool b \<Rightarrow> Inr (if b then ''true'' else ''false'')
              | _ \<Rightarrow> Inr ''{}''),
           to_string = (\<lambda>v. ''[object Object]''),
           get_stack = None,
           body_rejects_first = (\<lambda>w. False)\<rparr>"

text \<open>Three instances, \<open>root1\<close>, \<open>mid1\<close> extending it and \<open>leaf1\<close> extending that.
  All set \<open>url\<close>; \<open>root1\<close> and \<open>mid1\<close> set \<open>method\<close>; \<open>leaf1\<close> has a body schema factory.\<close>

definition root1 :: liaison where
  "root1 = Liaison 0 0 None"

definition mid1 :: liaison where
  "mid1 = Liaison 1 1 (Some root1)"

definition leaf1 :: liaison where
  "leaf1 = Liaison 2 2 (Some mid1)"

definition no_signal :: signal where
  "no_signal = \<lparr>aborted = False, listeners = []\<rparr>"

definition world1 :: "unit world" where
  "world1 =
     \<lparr>heap = [0 \<mapsto> [''url'' \<mapsto> JStr ''/root'', ''method'' \<mapsto> JStr ''GET''],
              1 \<mapsto> [''url'' \<mapsto> JStr ''/mid'', ''method'' \<mapsto> JStr ''POST''],
              2 \<mapsto> [''url'' \<mapsto> JStr ''/leaf'', ''body'' \<mapsto> JFun 7]],
      next_addr = 3,
      interceptors = (\<lambda>i ev. []),
      signals = (\<lambda>s. no_signal),
      user = ()\<rparr>"






text \<open>What a record of calls shows: the interceptors called, and the URLs the
  transport was called with.\<close>

definition intercepted :: "call list \<Rightarrow> (event \<times> nat) list" where
  "intercepted tr = concat (map (\<lambda>c. case c of Intercepted ev cb \<Rightarrow> [(ev, cb)] | Transported r \<Rightarrow> []) tr)"

definition transported_urls :: "call list \<Rightarrow> url list" where
  "transported_urls tr = concat (map (\<lambda>c. case c of Transported r \<Rightarrow> [req_url r] | Intercepted ev cb \<Rightarrow> []) tr)"

text \<open>The transport fails; the error interceptor 5, registered on \<open>root1\<close>, notes the
  stage in the message.\<close>

definition envC :: "unit env" where
  "envC = env0\<lparr>transport := (\<lambda>req w. (Inl (type_error ''Failed to fetch''), w)),
               error_cb := (\<lambda>f e req stg stack w.
                  (Inr (Error (err_name e)
                     (err_message e @ (case stg of AtRequest \<Rightarrow> '' [request]'' | AtResponse \<Rightarrow> '' [response]''))), w))\<rparr>"

definition worldC :: "unit world" where
  "worldC = world1\<lparr>interceptors := (\<lambda>i ev. if i = 0 \<and> ev = EvError then [5] else [])\<rparr>"

text \<open>As before, but the error interceptor throws a string.\<close>

definition envB :: "unit env" where
  "envB = envC\<lparr>error_cb := (\<lambda>f e req stg stack w. (Inl (OtherV (JStr ''offline'')), w))\<rparr>"

text \<open>A call config whose \<open>override\<close> is an object.\<close>

definition cfgO :: obj where
  "cfgO = [''override'' \<mapsto> JObj [(''method'', JStr ''PUT'')]]"

text \<open>An instance that sets no \<open>url\<close>.\<close>

definition instN :: liaison where
  "instN = Liaison 0 0 None"

definition worldN :: "unit world" where
  "worldN = world1\<lparr>heap := [0 \<mapsto> [''method'' \<mapsto> JStr ''GET'']], next_addr := 1\<rparr>"

text \<open>Reading a decimal numeral back.\<close>

definition read_nat :: "string \<Rightarrow> nat" where
  "read_nat s = foldl (\<lambda>a c. 10 * a + (of_char c - 48)) 0 s"

text \<open>A 404 whose body reads, and a 500 whose body cannot be read.\<close>

definition res404 :: response where
  "res404 = \<lparr>status = 404, statusText = ''Not Found'', rtype = ''basic'',
             content_type = Some ''text/plain'',
             text_read = Inr ''no such user'', json_read = Inl (ErrorV (Error ''SyntaxError'' ''Unexpected token''))\<rparr>"

definition res500 :: response where
  "res500 = \<lparr>status = 500, statusText = ''Internal Server Error'', rtype = ''basic'',
             content_type = None,
             text_read = Inl (ErrorV (Error ''TypeError'' ''body stream errored'')),
             json_read = Inl (ErrorV (Error ''TypeError'' ''body stream errored''))\<rparr>"











text \<open>A platform without a base URL (Node): only an absolute URL string parses. The
  transport answers; the error interceptor notes the stage in the message, as in \<open>envC\<close>.\<close>

definition absolute_url :: "string \<Rightarrow> bool" where
  "absolute_url s = (take 7 s = ''http://'' \<or> take 8 s = ''https://'')"

definition envNode :: "unit env" where
  "envNode = env0\<lparr>parse_url := (\<lambda>s. if absolute_url s then Some \<lparr>url_base = s, url_search = []\<rparr> else None),
                  error_cb := error_cb envC\<rparr>"

text \<open>The \<open>Request\<close> constructor refuses a body on a \<open>GET\<close> request; a call config that
  sets a body.\<close>

definition envG :: "unit env" where
  "envG = env0\<lparr>init_error := (\<lambda>ini.
                   if get_prop ini ''method'' = JStr ''GET'' \<and> \<not> nullish (get_prop ini ''body'')
                   then Some (type_error ''Request with GET/HEAD method cannot have body'')
                   else None),
               error_cb := error_cb envC\<rparr>"

definition cfgB :: obj where
  "cfgB = [''body'' \<mapsto> JStr ''x'']"

text \<open>The request interceptor 4 and the error interceptor 5 are registered on \<open>root1\<close>;
  the request interceptor throws an object that refers to itself.\<close>

definition worldQ :: "unit world" where
  "worldQ = world1\<lparr>interceptors :=
      (\<lambda>i ev. if i = 0 \<and> ev = EvRequest then [4] else if i = 0 \<and> ev = EvError then [5] else [])\<rparr>"

definition envQ :: "unit env" where
  "envQ = env0\<lparr>request_cb := (\<lambda>f req stack w. (Inl (OtherV JCyclic), w)),
               error_cb := error_cb envC\<rparr>"

text \<open>As \<open>envB\<close>, but the error interceptor throws a BigInt.\<close>

definition envBig :: "unit env" where
  "envBig = envC\<lparr>error_cb := (\<lambda>f e req stg stack w. (Inl (OtherV (JBigInt 1)), w))\<rparr>"

section \<open>Config resolution\<close>

lemma spread_chain_apply:
  "spread_chain h e opts k =
     (case opts k of
        Some v \<Rightarrow> Some v
      | None \<Rightarrow> (case e of None \<Rightarrow> None | Some x \<Rightarrow> closest h x k))"
proof (induction h e opts rule: spread_chain.induct)
  case (1 h opts)
  then show ?case by (simp split: option.splits)
next
  case (2 h i p e opts)
  then show ?case by (simp add: map_add_def split: option.splits)
qed

lemma set_schema_apply:
  "set_schema env key opts k =
     (if k = key then Some (materialize env (get_prop opts k)) else opts k)"
  by (simp add: set_schema_def)

lemma set_schemas_apply:
  "set_schemas env opts k =
     (if k \<in> set schema_keys then Some (materialize env (get_prop opts k)) else opts k)"
  by (simp add: set_schemas_def schema_keys_def set_schema_apply get_prop_def)

lemma config_contents:
  "deref (heap (snd (config env this w))) (fst (config env this w)) =
     set_schemas env (spread_chain (heap w) (extends this) (deref (heap w) (partial this)))"
  by (cases "extends this") (simp_all add: config_def alloc_def deref_def)

lemma merged_closest:
  "spread_chain h (extends this) (deref h (partial this)) k = closest h this k"
  by (cases this) (simp add: spread_chain_apply split: option.splits)

lemma closest_leaf1:
  "closest (heap world1) leaf1 ''url'' = Some (JStr ''/leaf'')"
  "closest (heap world1) leaf1 ''method'' = Some (JStr ''POST'')"
  "closest (heap world1) leaf1 ''body'' = Some (JFun 7)"
  by (simp_all add: leaf1_def mid1_def root1_def world1_def deref_def)

text \<open>
  C1, as stated, at the key \<open>body\<close> of \<open>leaf1\<close>: the nearest instance that defines it is
  \<open>leaf1\<close> itself, whose value is the factory function; the resolved config holds the
  schema the factory returns instead.
\<close>

theorem C1_counterexample:
  "closest (heap world1) leaf1 ''body'' = Some (JFun 7) \<and>
   deref (heap (snd (config env0 leaf1 world1))) (fst (config env0 leaf1 world1)) ''body''
     = Some (JSchema (ZUser 7))"
  by (simp add: config_contents set_schemas_apply merged_closest closest_leaf1 get_prop_def
      schema_keys_def materialize_def nullish_def env0_def)

text \<open>
  C1 (amended): config resolution is closest-definition-wins. For every chain and every
  key other than \<open>params\<close>, \<open>body\<close> and \<open>response\<close>, the resolved config has the value
  of the instance nearest the leaf that defines the key (has it as an own property of
  its \<open>partial\<close>), and lacks the key when no instance defines it. For those three keys it has the schema made from that value:
  \<open>z.unknown()\<close> when the value is missing, undefined or null, the result of the call
  when it is a function, the value itself otherwise.
\<close>

theorem C1_closest_definition_wins:
  "deref (heap (snd (config env this w))) (fst (config env this w)) k =
     (if k \<in> set schema_keys
      then Some (materialize env (case closest (heap w) this k of None \<Rightarrow> JUndefined | Some v \<Rightarrow> v))
      else closest (heap w) this k)"
  by (simp add: config_contents set_schemas_apply merged_closest get_prop_def)

theorem C1_witness:
  "deref (heap (snd (config env0 leaf1 world1))) (fst (config env0 leaf1 world1)) ''url''
     = Some (JStr ''/leaf'') \<and>
   deref (heap (snd (config env0 leaf1 world1))) (fst (config env0 leaf1 world1)) ''method''
     = Some (JStr ''POST'')"
  using C1_closest_definition_wins [of env0 leaf1 world1 "''url''"]
        C1_closest_definition_wins [of env0 leaf1 world1 "''method''"]
  by (simp add: closest_leaf1 schema_keys_def)

text \<open>
  C9, at a root instance: reading \<open>config\<close> of \<open>root1\<close> writes the schema keys into
  the object \<open>root1.partial\<close> refers to, which had none of them. Reading \<open>config\<close> of
  \<open>leaf1\<close>, which extends another instance, leaves the stored objects of \<open>leaf1\<close>,
  \<open>mid1\<close> and \<open>root1\<close> as they were.
\<close>

theorem C9_root_partial_written:
  "deref (heap world1) (partial root1) ''params'' = None \<and>
   deref (heap (snd (config env0 root1 world1))) (partial root1) ''params''
     = Some (JSchema ZUnknown) \<and>
   deref (heap (snd (config env0 root1 world1))) (partial root1) ''body''
     = Some (JSchema ZUnknown) \<and>
   heap (snd (config env0 leaf1 world1)) (partial leaf1) = heap world1 (partial leaf1) \<and>
   heap (snd (config env0 leaf1 world1)) (partial mid1) = heap world1 (partial mid1) \<and>
   heap (snd (config env0 leaf1 world1)) (partial root1) = heap world1 (partial root1)"
  by (simp add: config_def alloc_def leaf1_def mid1_def root1_def world1_def deref_def
      set_schemas_apply schema_keys_def get_prop_def materialize_def nullish_def)

section \<open>The chain and the pipelines\<close>

lemma of_char_digit: "d < 10 \<Longrightarrow> (of_char (digit d) :: nat) = 48 + d"
  by (simp add: digit_def)

lemma digit_not_dash: "d < 10 \<Longrightarrow> digit d \<noteq> CHR ''-''"
proof
  assume d: "d < 10" and "digit d = CHR ''-''"
  then have "(of_char (digit d) :: nat) = of_char (CHR ''-'')" by simp
  with d show False by (simp add: of_char_digit)
qed

lemma digit_inj: "d < 10 \<Longrightarrow> d' < 10 \<Longrightarrow> digit d = digit d' \<Longrightarrow> d = d'"
proof -
  assume d: "d < 10" "d' < 10" and "digit d = digit d'"
  then have "(of_char (digit d) :: nat) = of_char (digit d')" by simp
  with d show ?thesis by (simp add: of_char_digit)
qed

lemma show_nat_not_Nil: "show_nat n \<noteq> []"
  by (subst show_nat.simps) simp

lemma dash_notin_show_nat: "CHR ''-'' \<notin> set (show_nat n)"
proof (induction n rule: show_nat.induct)
  case (1 n)
  show ?case
  proof (cases "n < 10")
    case True
    then show ?thesis using digit_not_dash[of n] by (subst show_nat.simps) auto
  next
    case False
    then show ?thesis using 1 digit_not_dash[of "n mod 10"]
      by (subst show_nat.simps) auto
  qed
qed

lemma show_nat_inj: "show_nat n = show_nat m \<Longrightarrow> n = m"
proof (induction n arbitrary: m rule: show_nat.induct)
  case (1 n)
  show ?case
  proof (cases "n < 10")
    case n: True
    show ?thesis
    proof (cases "m < 10")
      case True
      with n 1(2) show ?thesis
        by (simp add: show_nat.simps[of n] show_nat.simps[of m] digit_inj)
    next
      case False
      with n 1(2) show ?thesis
        by (simp add: show_nat.simps[of n] show_nat.simps[of m] show_nat_not_Nil Cons_eq_append_conv)
    qed
  next
    case n: False
    show ?thesis
    proof (cases "m < 10")
      case True
      with n 1(2) show ?thesis
        by (simp add: show_nat.simps[of n] show_nat.simps[of m] show_nat_not_Nil append_eq_Cons_conv)
    next
      case False
      with n 1(2) have eq: "show_nat (n div 10) = show_nat (m div 10)" "digit (n mod 10) = digit (m mod 10)"
        by (simp_all add: show_nat.simps[of n] show_nat.simps[of m])
      from 1(1)[OF n eq(1)] have "n div 10 = m div 10" .
      moreover from eq(2) have "n mod 10 = m mod 10" by (intro digit_inj) simp_all
      ultimately show ?thesis by (metis div_mult_mod_eq)
    qed
  qed
qed

lemma same_prefix_before:
  "c \<notin> set xs \<Longrightarrow> c \<notin> set ys \<Longrightarrow> xs @ c # s = ys @ c # t \<Longrightarrow> xs = ys"
proof (induction xs arbitrary: ys)
  case Nil
  then show ?case by (cases ys) auto
next
  case (Cons x xs)
  then show ?case by (cases ys) auto
qed

lemma chain_key_inj: "chain_key env w i e = chain_key env w j e' \<Longrightarrow> i = j"
proof -
  assume "chain_key env w i e = chain_key env w j e'"
  then obtain s t where "show_nat i @ CHR ''-'' # s = show_nat j @ CHR ''-'' # t"
    by (simp add: chain_key_def Let_def)
  then have "show_nat i = show_nat j"
    by (rule same_prefix_before[OF dash_notin_show_nat dash_notin_show_nat])
  then show ?thesis by (rule show_nat_inj)
qed

lemma assign_fresh: "k \<notin> fst ` set a \<Longrightarrow> assign a k v = a @ [(k, v)]"
  by (induction a) auto

lemma chain_fold:
  "\<forall>kv \<in> set a. \<exists>j e'. j < n \<and> fst kv = chain_key env w j e' \<Longrightarrow>
   foldl (\<lambda>a (i, e). assign a (chain_key env w i e) e) a (enumerate n xs) =
     a @ map (\<lambda>(i, e). (chain_key env w i e, e)) (enumerate n xs)"
proof (induction xs arbitrary: a n)
  case Nil
  then show ?case by simp
next
  case (Cons x xs)
  have fresh: "chain_key env w n x \<notin> fst ` set a"
  proof
    assume "chain_key env w n x \<in> fst ` set a"
    then obtain kv where kv: "kv \<in> set a" "fst kv = chain_key env w n x" by auto
    with Cons.prems obtain j e' where "j < n" "fst kv = chain_key env w j e'" by blast
    with kv(2) show False using chain_key_inj[of env w n x j e'] by simp
  qed
  have inv: "\<forall>kv \<in> set (a @ [(chain_key env w n x, x)]). \<exists>j e'. j < Suc n \<and> fst kv = chain_key env w j e'"
  proof
    fix kv assume "kv \<in> set (a @ [(chain_key env w n x, x)])"
    then consider "kv \<in> set a" | "kv = (chain_key env w n x, x)" by auto
    then show "\<exists>j e'. j < Suc n \<and> fst kv = chain_key env w j e'"
    proof cases
      case 1
      with Cons.prems obtain j e' where "j < n" "fst kv = chain_key env w j e'" by blast
      then show ?thesis using less_SucI by blast
    next
      case 2
      then show ?thesis by auto
    qed
  qed
  show ?case
    using Cons.IH[OF inv] by (simp add: assign_fresh[OF fresh])
qed

lemma chain_values: "map snd (chain env this w) = rev (instances this)"
proof -
  have "chain env this w = map (\<lambda>(i, e). (chain_key env w i e, e)) (enumerate 0 (rev (instances this)))"
    unfolding chain_def using chain_fold[of "[]" 0 env w "rev (instances this)"] by simp
  then have "map snd (chain env this w) = map snd (enumerate 0 (rev (instances this)))"
    by (simp add: case_prod_unfold comp_def)
  then show ?thesis by simp
qed

lemma getInterceptors_chain:
  "getInterceptors env this ev w = concat (map (\<lambda>e. interceptors w (self e) ev) (rev (instances this)))"
  by (simp add: getInterceptors_def chain_values)

lemma reduce_rejected:
  "foldl (\<lambda>a e. case fst a of Inl t \<Rightarrow> a | Inr v \<Rightarrow> invoke ev e (cb e v) (snd a)) (Inl t, st) cbs = (Inl t, st)"
  by (induction cbs) simp_all

lemma reduce_async_Nil: "reduce_async ev cb [] acc st = (Inr acc, st)"
  by (simp add: reduce_async_def)

lemma reduce_async_Cons:
  "reduce_async ev cb (e # cbs) acc st =
     (case cb e acc (fst st) of
        (Inl t, w') \<Rightarrow> (Inl t, (w', snd st @ [Intercepted ev e]))
      | (Inr v, w') \<Rightarrow> reduce_async ev cb cbs v (w', snd st @ [Intercepted ev e]))"
  by (simp add: reduce_async_def invoke_def reduce_rejected split: prod.splits sum.splits)







section \<open>The stages of a call\<close>

lemma error_path_eq:
  "error_path env this err req stg st =
     (case coerceError env err of
        Inl t \<Rightarrow> (t, st)
      | Inr coercedError \<Rightarrow>
          (case errorPipe env this (fst st) coercedError req stg (get_stack env) st of
             (Inl t, st') \<Rightarrow> (t, st')
           | (Inr e, st') \<Rightarrow> (ErrorV e, st')))"
  by (simp add: error_path_def)

lemma fetch_success:
  assumes "prepare env this callConfig (fst st) = (Inr c, w1)"
    and "request_stage env this c (w1, snd st) = ((Inr final, cur), st2)"
    and "response_stage env this c final st2 = (Inr v, st3)"
  shows "fetch env this callConfig st = (Inr v, st3)"
  using assms by (simp add: fetch_def)

lemma request_stage_validation_failure:
  "validate env (paramSchema c) (bodySchema c) (paramsInput c) (bodyInput c) (fst st) = (Inl t, w2) \<Longrightarrow>
   request_stage env this c st = ((Inl t, initialRequest c), (w2, snd st))"
  by (simp add: request_stage_def)

lemma request_stage_build_failure:
  "validate env (paramSchema c) (bodySchema c) (paramsInput c) (bodyInput c) (fst st) = (Inr (ps, b), w2) \<Longrightarrow>
   build env (stringUrl c) (nativeConfig c) ps b = Inl t \<Longrightarrow>
   request_stage env this c st = ((Inl t, initialRequest c), (w2, snd st))"
  by (simp add: request_stage_def)

lemma request_stage_intercept_failure:
  "validate env (paramSchema c) (bodySchema c) (paramsInput c) (bodyInput c) (fst st) = (Inr (ps, b), w2) \<Longrightarrow>
   build env (stringUrl c) (nativeConfig c) ps b = Inr built \<Longrightarrow>
   requestPipe env this w2 built (get_stack env) (w2, snd st) = (Inl t, st2) \<Longrightarrow>
   request_stage env this c st = ((Inl t, built), st2)"
  by (simp add: request_stage_def)

lemma response_stage_transport_failure:
  "transport env final (fst st) = (Inl t, w2) \<Longrightarrow>
   response_stage env this c final st = (Inl t, (w2, snd st @ [Transported final]))"
  by (simp add: response_stage_def)

lemma response_stage_status_failure:
  "transport env final (fst st) = (Inr res, w2) \<Longrightarrow> handleServerError res = Inl t \<Longrightarrow>
   response_stage env this c final st = (Inl t, (w2, snd st @ [Transported final]))"
  by (simp add: response_stage_def)

lemma response_stage_intercept_failure:
  "transport env final (fst st) = (Inr res, w2) \<Longrightarrow> handleServerError res = Inr res1 \<Longrightarrow>
   responsePipe env this w2 res1 final (w2, snd st @ [Transported final]) = (Inl t, st2) \<Longrightarrow>
   response_stage env this c final st = (Inl t, st2)"
  by (simp add: response_stage_def)

lemma response_stage_unwrap_failure:
  "transport env final (fst st) = (Inr res, w2) \<Longrightarrow> handleServerError res = Inr res1 \<Longrightarrow>
   responsePipe env this w2 res1 final (w2, snd st @ [Transported final]) = (Inr res2, st2) \<Longrightarrow>
   unwrap_step env (handleResponse c) res2 (fst st2) = (Inl t, w3) \<Longrightarrow>
   response_stage env this c final st = (Inl t, (w3, snd st2))"
  by (simp add: response_stage_def)

lemma response_stage_validation_failure:
  "transport env final (fst st) = (Inr res, w2) \<Longrightarrow> handleServerError res = Inr res1 \<Longrightarrow>
   responsePipe env this w2 res1 final (w2, snd st @ [Transported final]) = (Inr res2, st2) \<Longrightarrow>
   unwrap_step env (handleResponse c) res2 (fst st2) = (Inr v, w3) \<Longrightarrow>
   parse_response env (responseSchema c) v w3 = (Inl t, w4) \<Longrightarrow>
   response_stage env this c final st = (Inl t, (w4, snd st2))"
  by (simp add: response_stage_def)

section \<open>What a pipeline run calls; cancellation\<close>

lemma reduce_async_trace:
  "\<exists>n\<le>length cbs.
     snd (snd (reduce_async ev cb cbs acc st)) = snd st @ map (Intercepted ev) (take n cbs) \<and>
     (\<forall>v. fst (reduce_async ev cb cbs acc st) = Inr v \<longrightarrow> n = length cbs)"
proof (induction cbs arbitrary: acc st)
  case Nil
  then show ?case by (simp add: reduce_async_Nil)
next
  case (Cons e cbs)
  obtain r w' where step: "cb e acc (fst st) = (r, w')" by (cases "cb e acc (fst st)")
  show ?case
  proof (cases r)
    case (Inl t)
    with step have "reduce_async ev cb (e # cbs) acc st = (Inl t, (w', snd st @ [Intercepted ev e]))"
      by (simp add: reduce_async_Cons)
    then show ?thesis by (intro exI[of _ 1]) simp
  next
    case (Inr v)
    with step have eq: "reduce_async ev cb (e # cbs) acc st
        = reduce_async ev cb cbs v (w', snd st @ [Intercepted ev e])"
      by (simp add: reduce_async_Cons)
    from Cons.IH[of v "(w', snd st @ [Intercepted ev e])"]
    obtain n where n: "n \<le> length cbs"
      "snd (snd (reduce_async ev cb cbs v (w', snd st @ [Intercepted ev e])))
         = (snd st @ [Intercepted ev e]) @ map (Intercepted ev) (take n cbs)"
      "\<forall>v'. fst (reduce_async ev cb cbs v (w', snd st @ [Intercepted ev e])) = Inr v' \<longrightarrow> n = length cbs"
      by auto
    show ?thesis
      using n unfolding eq by (intro exI[of _ "Suc n"]) simp
  qed
qed





lemma config_lookup:
  "deref (heap (snd (config env this w))) (fst (config env this w)) k =
     (if k \<in> set schema_keys
      then Some (materialize env (case closest (heap w) this k of None \<Rightarrow> JUndefined | Some v \<Rightarrow> v))
      else closest (heap w) this k)"
  by (simp add: config_contents set_schemas_apply merged_closest get_prop_def)


lemma response_stage_trace:
  assumes "transport env final (fst st) = (Inr res, w2)" and "handleServerError res = Inr res1"
  shows "\<exists>n\<le>length (getInterceptors env this EvResponse w2).
           snd (snd (response_stage env this c final st))
             = snd st @ Transported final #
                 map (Intercepted EvResponse) (take n (getInterceptors env this EvResponse w2)) \<and>
           (\<forall>v. fst (response_stage env this c final st) = Inr v \<longrightarrow>
              n = length (getInterceptors env this EvResponse w2))"
proof -
  let ?L = "getInterceptors env this EvResponse w2"
  let ?run = "reduce_async EvResponse (\<lambda>e a. response_cb env e a final) ?L res1
                (w2, snd st @ [Transported final])"
  from reduce_async_trace[of ?L EvResponse "\<lambda>e a. response_cb env e a final" res1
      "(w2, snd st @ [Transported final])"]
  obtain n where n: "n \<le> length ?L"
    "snd (snd ?run) = (snd st @ [Transported final]) @ map (Intercepted EvResponse) (take n ?L)"
    "\<forall>v. fst ?run = Inr v \<longrightarrow> n = length ?L" by auto
  have rs: "response_stage env this c final st =
      (case ?run of
         (Inl t, st2) \<Rightarrow> (Inl t, st2)
       | (Inr res2, st2) \<Rightarrow>
           (case unwrap_step env (handleResponse c) res2 (fst st2) of
              (Inl t, w3) \<Rightarrow> (Inl t, (w3, snd st2))
            | (Inr v, w3) \<Rightarrow>
                (case parse_response env (responseSchema c) v w3 of
                   (r, w4) \<Rightarrow> (r, (w4, snd st2)))))"
    using assms by (simp add: response_stage_def responsePipe_def createResponsePipe_def)
  show ?thesis
    using n unfolding rs by (intro exI[of _ n]) (auto split: prod.splits sum.splits)
qed

lemma error_path_trace:
  "\<exists>n\<le>length (getInterceptors env this EvError (fst st)).
     snd (snd (error_path env this err req stg st))
       = snd st @ map (Intercepted EvError) (take n (getInterceptors env this EvError (fst st)))"
proof (cases "coerceError env err")
  case (Inl t)
  then show ?thesis by (intro exI[of _ 0]) (simp add: error_path_def)
next
  case (Inr ce)
  let ?L = "getInterceptors env this EvError (fst st)"
  from reduce_async_trace[of ?L EvError "\<lambda>e a. error_cb env e a req stg (get_stack env)" ce st]
  obtain n where n: "n \<le> length ?L"
    "snd (snd (reduce_async EvError (\<lambda>e a. error_cb env e a req stg (get_stack env)) ?L ce st))
       = snd st @ map (Intercepted EvError) (take n ?L)" by auto
  with Inr show ?thesis
    by (intro exI[of _ n])
       (auto simp: error_path_def errorPipe_def createErrorPipe_def split: prod.splits sum.splits)
qed

lemma response_stage_transported:
  "\<exists>xs. snd (snd (response_stage env this c final st)) = snd st @ Transported final # xs"
proof (cases "transport env final (fst st)")
  case (Pair r w2)
  show ?thesis
  proof (cases r)
    case (Inl t)
    with Pair show ?thesis by (simp add: response_stage_def)
  next
    case (Inr res)
    show ?thesis
    proof (cases "handleServerError res")
      case (Inl t)
      with Pair Inr show ?thesis by (simp add: response_stage_def)
    next
      case res1: (Inr res1)
      from response_stage_trace[of env final st res w2 res1 this c] Pair Inr res1
      show ?thesis by auto
    qed
  qed
qed


section \<open>Merging the call config\<close>

lemma merge_config_apply:
  "merge_config ic cc ov k =
     (case ov k of
        Some v \<Rightarrow> Some v
      | None \<Rightarrow>
          (case cc k of
             Some v \<Rightarrow> Some v
           | None \<Rightarrow>
               (if k \<in> {''params'', ''body'', ''response'', ''handleResponse''} then None else ic k)))"
  by (simp add: merge_config_def without_def map_add_def restrict_map_def split: option.splits)

lemma native_config_apply:
  "native_config merged k = (if k \<in> {''body'', ''params'', ''url''} then None else merged k)"
  by (simp add: native_config_def without_def restrict_map_def)

lemma get_prop_undefined: "get_prop ob k = JUndefined \<longleftrightarrow> ob k = None \<or> ob k = Some JUndefined"
  by (simp add: get_prop_def split: option.splits)

lemma string_url_missing: "get_prop merged ''url'' = JUndefined \<Longrightarrow> string_url env merged = missing_url"
  by (simp add: string_url_def)

lemma merge_config_url:
  "merge_config ic cc ov ''url'' =
     (case ov ''url'' of
        Some v \<Rightarrow> Some v
      | None \<Rightarrow> (case cc ''url'' of Some v \<Rightarrow> Some v | None \<Rightarrow> ic ''url''))"
  by (simp add: merge_config_apply)

lemma merged_url_undefined:
  assumes "get_prop ic ''url'' = JUndefined" "get_prop cc ''url'' = JUndefined"
    "get_prop ov ''url'' = JUndefined"
  shows "get_prop (merge_config ic cc ov) ''url'' = JUndefined"
  using assms unfolding get_prop_def merge_config_url by (simp split: option.splits)

lemma merged_url_explicit:
  assumes "get_prop ov ''url'' = JUndefined"
  shows "string_url env (merge_config ic (cc(''url'' \<mapsto> JStr missing_url)) ov) = missing_url"
proof (cases "ov ''url''")
  case None
  then show ?thesis
    by (simp add: string_url_def get_prop_def merge_config_url template_def)
next
  case (Some v)
  with assms have "v = JUndefined" by (simp add: get_prop_def)
  with Some show ?thesis
    by (simp add: string_url_def get_prop_def merge_config_url)
qed

lemma merge_config_other:
  "k \<noteq> ''url'' \<Longrightarrow> merge_config ic (cc(''url'' \<mapsto> x)) ov k = merge_config ic cc ov k"
  by (simp add: merge_config_def map_add_def)

lemma native_config_url_irrelevant:
  "native_config (merge_config ic (cc(''url'' \<mapsto> x)) ov) = native_config (merge_config ic cc ov)"
proof (rule ext)
  fix k
  show "native_config (merge_config ic (cc(''url'' \<mapsto> x)) ov) k
          = native_config (merge_config ic cc ov) k"
  proof (cases "k = ''url''")
    case True
    then show ?thesis by (simp add: native_config_apply)
  next
    case False
    then show ?thesis by (simp add: native_config_apply merge_config_other)
  qed
qed

lemma merged_other_key:
  "k \<noteq> ''url'' \<Longrightarrow> get_prop (merge_config ic (cc(''url'' \<mapsto> x)) ov) k = get_prop (merge_config ic cc ov) k"
  by (simp add: get_prop_def merge_config_other)

lemma instance_url:
  "get_prop (deref (heap (snd (config env this w))) (fst (config env this w))) ''url''
     = (case closest (heap w) this ''url'' of None \<Rightarrow> JUndefined | Some v \<Rightarrow> v)"
  by (simp add: get_prop_def config_lookup schema_keys_def)

lemma prepare_missing_url:
  assumes chain: "(case closest (heap w) this ''url'' of None \<Rightarrow> JUndefined | Some v \<Rightarrow> v) = JUndefined"
    and call: "get_prop callConfig ''url'' = JUndefined"
    and ov: "\<forall>ov. override_fragment env (get_prop callConfig ''override'')
                   (deref (heap (snd (config env this w))) (fst (config env this w))) = Inr ov
                 \<longrightarrow> get_prop ov ''url'' = JUndefined"
    and prep: "prepare env this callConfig w = (Inr c, w1)"
  shows "stringUrl c = missing_url \<and>
         new_Request env (FromString missing_url) (nativeConfig c) = Inr (initialRequest c)"
proof -
  obtain a w' where cfg: "config env this w = (a, w')" by (cases "config env this w")
  let ?ic = "deref (heap w') a"
  from instance_url[of env this w] chain cfg have ic: "get_prop ?ic ''url'' = JUndefined" by simp
  from prep cfg obtain ovf where ovf: "override_fragment env (get_prop callConfig ''override'') ?ic = Inr ovf"
    by (auto simp: prepare_def Let_def split: sum.splits)
  with ov cfg have "get_prop ovf ''url'' = JUndefined" by simp
  with ic call have "string_url env (merge_config ?ic callConfig ovf) = missing_url"
    by (intro string_url_missing merged_url_undefined)
  with prep cfg ovf show ?thesis
    by (auto simp: prepare_def Let_def split: sum.splits option.splits)
qed

lemma prepare_url_explicit:
  assumes chain: "(case closest (heap w) this ''url'' of None \<Rightarrow> JUndefined | Some v \<Rightarrow> v) = JUndefined"
    and call: "get_prop callConfig ''url'' = JUndefined"
    and ov: "\<forall>ov. override_fragment env (get_prop callConfig ''override'')
                   (deref (heap (snd (config env this w))) (fst (config env this w))) = Inr ov
                 \<longrightarrow> get_prop ov ''url'' = JUndefined"
  shows "prepare env this (callConfig(''url'' \<mapsto> JStr missing_url)) w = prepare env this callConfig w"
proof -
  obtain a w' where cfg: "config env this w = (a, w')" by (cases "config env this w")
  let ?ic = "deref (heap w') a"
  let ?cc = "callConfig(''url'' \<mapsto> JStr missing_url)"
  from instance_url[of env this w] chain cfg have ic: "get_prop ?ic ''url'' = JUndefined" by simp
  have o: "get_prop ?cc ''override'' = get_prop callConfig ''override''" by (simp add: get_prop_def)
  show ?thesis
  proof (cases "override_fragment env (get_prop callConfig ''override'') ?ic")
    case (Inl t)
    with cfg o show ?thesis by (simp add: prepare_def)
  next
    case (Inr ovf)
    with ov cfg have u: "get_prop ovf ''url'' = JUndefined" by simp
    have s1: "string_url env (merge_config ?ic ?cc ovf) = missing_url"
      by (rule merged_url_explicit[OF u])
    have s2: "string_url env (merge_config ?ic callConfig ovf) = missing_url"
      using ic call u by (intro string_url_missing merged_url_undefined)
    have e1: "native_config (merge_config ?ic ?cc ovf) = native_config (merge_config ?ic callConfig ovf)"
      by (rule native_config_url_irrelevant)
    have e2: "get_prop (merge_config ?ic ?cc ovf) ''body'' = get_prop (merge_config ?ic callConfig ovf) ''body''"
      by (rule merged_other_key) simp
    have e3: "get_prop (merge_config ?ic ?cc ovf) ''params'' = get_prop (merge_config ?ic callConfig ovf) ''params''"
      by (rule merged_other_key) simp
    show ?thesis
      unfolding prepare_def cfg prod.case Let_def o Inr sum.case s1 s2 e1 e2 e3 by (rule refl)
  qed
qed

section \<open>Calls: the two entry points and the error path\<close>

lemmas call_defs = go_def safeGo_def fetch_def prepare_def request_stage_def response_stage_def
  error_path_def config_def alloc_def deref_def set_schemas_def set_schema_def schema_keys_def
  get_prop_def materialize_def nullish_def override_fragment_def merge_config_def without_def
  string_url_def native_config_def missing_url_def template_def new_Request_def schema_of_def
  validate_def parse_params_def parseAsync_def baseParamSchema_def build_def setUrlParams_def
  requestPipe_def responsePipe_def errorPipe_def createRequestPipe_def createResponsePipe_def
  createErrorPipe_def getInterceptors_chain reduce_async_Nil reduce_async_Cons
  handleServerError_def ok_def unwrap_step_def unwrapRespone_def parse_response_def
  coerceError_def type_error_def zod_error_def addErrorMap_def append_param_def Let_def
  restrict_map_def map_add_def

lemmas example_defs = env0_def leaf1_def mid1_def root1_def world1_def res200_def no_signal_def

lemma go_leaf1: "fst (go env0 leaf1 Map.empty (world1, [])) = Inr (JObj [(''ok'', JBool True)])"
  by (simp add: call_defs example_defs)

lemma go_failed_transport:
  "fst (go envC leaf1 Map.empty (worldC, []))
     = Inl (ErrorV (Error ''TypeError'' ''Failed to fetch [response]''))"
  by (simp add: call_defs example_defs envC_def worldC_def)

lemma go_offline:
  "fst (go envB leaf1 Map.empty (worldC, [])) = Inl (OtherV (JStr ''offline''))"
  by (simp add: call_defs example_defs envB_def envC_def worldC_def)

lemma safeGo_offline:
  "fst (safeGo envB leaf1 Map.empty (worldC, []))
     = Inr (JNull, Some (ErrorV (Error ''Error'' ([CHR 0x22] @ ''offline'' @ [CHR 0x22]))))"
  by (simp add: call_defs example_defs envB_def envC_def worldC_def)

lemma go_bigint:
  "fst (go envBig leaf1 Map.empty (worldC, [])) = Inl (OtherV (JBigInt 1))"
  by (simp add: call_defs example_defs envBig_def envC_def worldC_def)

lemma safeGo_bigint:
  "fst (safeGo envBig leaf1 Map.empty (worldC, []))
     = Inl (ErrorV (Error ''TypeError'' ''Do not know how to serialize a BigInt''))"
  by (simp add: call_defs example_defs envBig_def envC_def worldC_def)

lemma go_relative_url:
  "go envNode leaf1 Map.empty (worldC, []) =
     (Inl (ErrorV (Error ''TypeError'' ''Invalid URL'')), (snd (config envNode leaf1 worldC), []))"
  by (simp add: call_defs example_defs envNode_def envC_def worldC_def absolute_url_def)

lemma go_body_on_get:
  "fst (go envG root1 cfgB (worldC, []))
     = Inl (ErrorV (Error ''TypeError'' ''Request with GET/HEAD method cannot have body [request]''))"
  "intercepted (snd (snd (go envG root1 cfgB (worldC, [])))) = [(EvError, 5)]"
  by (simp_all add: call_defs example_defs envG_def envC_def worldC_def cfgB_def intercepted_def)

lemma go_cyclic:
  "fst (go envQ leaf1 Map.empty (worldQ, []))
     = Inl (ErrorV (Error ''TypeError'' ''Converting circular structure to JSON''))"
  "intercepted (snd (snd (go envQ leaf1 Map.empty (worldQ, [])))) = [(EvRequest, 4)]"
  by (simp_all add: call_defs example_defs envQ_def envC_def worldQ_def intercepted_def)

lemma go_no_url_node:
  "go envNode instN Map.empty (worldN, []) =
     (Inl (ErrorV (Error ''TypeError'' ''Invalid URL'')), (snd (config envNode instN worldN), []))"
  by (simp add: call_defs example_defs envNode_def envC_def instN_def worldN_def absolute_url_def)

lemma go_object_override:
  "go env0 leaf1 cfgO (world1, []) =
     (Inl (ErrorV (Error ''TypeError'' ''callConfig.override is not a function'')),
      (snd (config env0 leaf1 world1), []))"
  by (simp add: call_defs example_defs cfgO_def)

lemma go_no_url:
  "transported_urls (snd (snd (go env0 instN Map.empty (worldN, []))))
     = [\<lparr>url_base = ''somehow a missing URL found its way'', url_search = []\<rparr>]"
  by (simp add: call_defs example_defs instN_def worldN_def transported_urls_def)

lemma fetch_request_rejects:
  assumes "prepare env this callConfig (fst st) = (Inr c, w1)"
    and "request_stage env this c (w1, snd st) = ((Inl err, cur), st2)"
  shows "fetch env this callConfig st =
     (case error_path env this err cur AtRequest st2 of (e, s) \<Rightarrow> (Inl e, s))"
  using assms by (simp add: fetch_def)

lemma fetch_response_rejects:
  assumes "prepare env this callConfig (fst st) = (Inr c, w1)"
    and "request_stage env this c (w1, snd st) = ((Inr final, cur), st2)"
    and "response_stage env this c final st2 = (Inl err, st3)"
  shows "fetch env this callConfig st =
     (case error_path env this err final AtResponse st3 of (e, s) \<Rightarrow> (Inl e, s))"
  using assms by (simp add: fetch_def)

lemma fetch_transported_next:
  assumes "prepare env this callConfig w = (Inr c, w1)"
    and "request_stage env this c (w1, tr) = ((Inr final, cur), st2)"
  shows "\<exists>xs. snd (snd (fetch env this callConfig (w, tr))) = snd st2 @ Transported final # xs"
proof -
  obtain r st3 where rs: "response_stage env this c final st2 = (r, st3)"
    by (cases "response_stage env this c final st2")
  from response_stage_transported[of env this c final st2] rs
  obtain xs where xs: "snd st3 = snd st2 @ Transported final # xs" by auto
  show ?thesis
  proof (cases r)
    case (Inr v)
    with assms rs xs show ?thesis by (simp add: fetch_def)
  next
    case (Inl err)
    from error_path_trace[of env this st3 err final AtResponse]
    obtain ys where "snd (snd (error_path env this err final AtResponse st3)) = snd st3 @ ys" by auto
    with assms rs xs Inl show ?thesis by (auto simp: fetch_def split: prod.splits)
  qed
qed

text \<open>
  C3, as stated. Where an error interceptor throws the string \<open>offline\<close> after the
  transport has failed, \<open>go\<close> rejects with that string, and \<open>safeGo\<close> resolves to
  \<open>[null, new Error("\"offline\"")]\<close>, not to \<open>[null, "offline"]\<close>. Where it throws a
  BigInt, \<open>go\<close> rejects with the BigInt and \<open>safeGo\<close> rejects too, with the \<open>TypeError\<close>
  of \<open>JSON.stringify\<close>.
\<close>

theorem C3_counterexample:
  "fst (go envB leaf1 Map.empty (worldC, [])) = Inl (OtherV (JStr ''offline'')) \<and>
   fst (safeGo envB leaf1 Map.empty (worldC, []))
     = Inr (JNull, Some (ErrorV (Error ''Error'' ([CHR 0x22] @ ''offline'' @ [CHR 0x22])))) \<and>
   fst (safeGo envB leaf1 Map.empty (worldC, [])) \<noteq> Inr (JNull, Some (OtherV (JStr ''offline''))) \<and>
   fst (go envBig leaf1 Map.empty (worldC, [])) = Inl (OtherV (JBigInt 1)) \<and>
   fst (safeGo envBig leaf1 Map.empty (worldC, []))
     = Inl (ErrorV (Error ''TypeError'' ''Do not know how to serialize a BigInt''))"
  by (simp add: go_offline safeGo_offline go_bigint safeGo_bigint)

text \<open>
  C3 (amended): \<open>safeGo\<close> agrees with \<open>go\<close> on the outcome of the call, and both leave
  the same state behind. Whenever \<open>go\<close> resolves with \<open>V\<close>, \<open>safeGo\<close> resolves to
  \<open>[V, null]\<close>. Whenever \<open>go\<close> rejects with \<open>E\<close> and \<open>coerceError(E)\<close> returns, \<open>safeGo\<close>
  resolves to \<open>[null, coerceError(E)]\<close>: that is \<open>[null, E]\<close> whenever \<open>E\<close> is an \<open>Error\<close>,
  and \<open>[null, new Error(JSON.stringify(E))]\<close> whenever \<open>E\<close> is another value that
  \<open>JSON.stringify\<close> serialises.
\<close>

theorem C3_go_safeGo_agree:
  "(fst (go env this callConfig st) = Inr V \<longrightarrow>
      safeGo env this callConfig st = (Inr (V, None), snd (go env this callConfig st))) \<and>
   (fst (go env this callConfig st) = Inl E \<longrightarrow> coerceError env E = Inr e \<longrightarrow>
      safeGo env this callConfig st
        = (Inr (JNull, Some (ErrorV e)), snd (go env this callConfig st))) \<and>
   (fst (go env this callConfig st) = Inl (ErrorV e') \<longrightarrow>
      safeGo env this callConfig st
        = (Inr (JNull, Some (ErrorV e')), snd (go env this callConfig st))) \<and>
   (fst (go env this callConfig st) = Inl (OtherV v) \<longrightarrow> json_message env v = Inr m \<longrightarrow>
      safeGo env this callConfig st
        = (Inr (JNull, Some (ErrorV (Error ''Error'' m))), snd (go env this callConfig st)))"
  by (cases "fetch env this callConfig st")
     (auto simp: go_def safeGo_def coerceError_def split: sum.splits)

theorem C3_witness:
  "fst (safeGo env0 leaf1 Map.empty (world1, [])) = Inr (JObj [(''ok'', JBool True)], None) \<and>
   fst (safeGo envC leaf1 Map.empty (worldC, []))
     = Inr (JNull, Some (ErrorV (Error ''TypeError'' ''Failed to fetch [response]''))) \<and>
   fst (safeGo envB leaf1 Map.empty (worldC, []))
     = Inr (JNull, Some (ErrorV (Error ''Error'' ([CHR 0x22] @ ''offline'' @ [CHR 0x22]))))"
proof -
  have m: "json_message envB (JStr ''offline'') = Inr ([CHR 0x22] @ ''offline'' @ [CHR 0x22])"
    by (simp add: envB_def envC_def env0_def)
  have c: "coerceError envC (ErrorV (Error ''TypeError'' ''Failed to fetch [response]''))
      = Inr (Error ''TypeError'' ''Failed to fetch [response]'')"
    by (simp add: coerceError_def)
  from C3_go_safeGo_agree [where env = env0 and this = leaf1 and callConfig = Map.empty
      and st = "(world1, [])" and V = "JObj [(''ok'', JBool True)]", THEN conjunct1]
  have one: "fst (safeGo env0 leaf1 Map.empty (world1, [])) = Inr (JObj [(''ok'', JBool True)], None)"
    by (simp add: go_leaf1)
  from C3_go_safeGo_agree [where env = envC and this = leaf1 and callConfig = Map.empty
      and st = "(worldC, [])" and E = "ErrorV (Error ''TypeError'' ''Failed to fetch [response]'')"
      and e = "Error ''TypeError'' ''Failed to fetch [response]''",
      THEN conjunct2, THEN conjunct1] c
  have two: "fst (safeGo envC leaf1 Map.empty (worldC, []))
     = Inr (JNull, Some (ErrorV (Error ''TypeError'' ''Failed to fetch [response]'')))"
    by (simp add: go_failed_transport)
  from C3_go_safeGo_agree [where env = envB and this = leaf1 and callConfig = Map.empty
      and st = "(worldC, [])" and v = "JStr ''offline''"
      and m = "[CHR 0x22] @ ''offline'' @ [CHR 0x22]",
      THEN conjunct2, THEN conjunct2, THEN conjunct2] m
  have three: "fst (safeGo envB leaf1 Map.empty (worldC, []))
     = Inr (JNull, Some (ErrorV (Error ''Error'' ([CHR 0x22] @ ''offline'' @ [CHR 0x22]))))"
    by (simp add: go_offline)
  from one two three show ?thesis by simp
qed

text \<open>
  Once the synchronous start of a call is over, every failure is passed to
  \<open>coerceError\<close> and, when that returns, sent through the error pipeline: the call
  rejects with what the pipeline settles to (or with what the pipeline itself rejects
  with), and never resolves. A failure of validation or of the build goes with the
  request first built from the URL and the options, a failure of a request interceptor
  with the built request, both at stage "request"; a failure of the transport, the
  status check, a response interceptor, the unwrapping or the response validation goes
  with the final request at stage "response".
\<close>

lemma error_routing_in_chain:
  assumes "prepare env this callConfig (fst st) = (Inr c, w1)"
  shows
   "(validate env (paramSchema c) (bodySchema c) (paramsInput c) (bodyInput c) w1 = (Inl t, w2) \<longrightarrow>
       fetch env this callConfig st =
         (case error_path env this t (initialRequest c) AtRequest (w2, snd st) of (e, s) \<Rightarrow> (Inl e, s))) \<and>
    (validate env (paramSchema c) (bodySchema c) (paramsInput c) (bodyInput c) w1 = (Inr (ps, b), w2) \<longrightarrow>
     build env (stringUrl c) (nativeConfig c) ps b = Inl t \<longrightarrow>
       fetch env this callConfig st =
         (case error_path env this t (initialRequest c) AtRequest (w2, snd st) of (e, s) \<Rightarrow> (Inl e, s))) \<and>
    (validate env (paramSchema c) (bodySchema c) (paramsInput c) (bodyInput c) w1 = (Inr (ps, b), w2) \<longrightarrow>
     build env (stringUrl c) (nativeConfig c) ps b = Inr built \<longrightarrow>
     requestPipe env this w2 built (get_stack env) (w2, snd st) = (Inl t, st2) \<longrightarrow>
       fetch env this callConfig st =
         (case error_path env this t built AtRequest st2 of (e, s) \<Rightarrow> (Inl e, s))) \<and>
    (request_stage env this c (w1, snd st) = ((Inr final, cur), st3) \<longrightarrow>
     transport env final (fst st3) = (Inl t, w4) \<longrightarrow>
       fetch env this callConfig st =
         (case error_path env this t final AtResponse (w4, snd st3 @ [Transported final]) of
            (e, s) \<Rightarrow> (Inl e, s))) \<and>
    (request_stage env this c (w1, snd st) = ((Inr final, cur), st3) \<longrightarrow>
     transport env final (fst st3) = (Inr res, w4) \<longrightarrow>
     handleServerError res = Inl t \<longrightarrow>
       fetch env this callConfig st =
         (case error_path env this t final AtResponse (w4, snd st3 @ [Transported final]) of
            (e, s) \<Rightarrow> (Inl e, s))) \<and>
    (request_stage env this c (w1, snd st) = ((Inr final, cur), st3) \<longrightarrow>
     transport env final (fst st3) = (Inr res, w4) \<longrightarrow>
     handleServerError res = Inr res1 \<longrightarrow>
     responsePipe env this w4 res1 final (w4, snd st3 @ [Transported final]) = (Inl t, st5) \<longrightarrow>
       fetch env this callConfig st =
         (case error_path env this t final AtResponse st5 of (e, s) \<Rightarrow> (Inl e, s))) \<and>
    (request_stage env this c (w1, snd st) = ((Inr final, cur), st3) \<longrightarrow>
     transport env final (fst st3) = (Inr res, w4) \<longrightarrow>
     handleServerError res = Inr res1 \<longrightarrow>
     responsePipe env this w4 res1 final (w4, snd st3 @ [Transported final]) = (Inr res2, st5) \<longrightarrow>
     unwrap_step env (handleResponse c) res2 (fst st5) = (Inl t, w6) \<longrightarrow>
       fetch env this callConfig st =
         (case error_path env this t final AtResponse (w6, snd st5) of (e, s) \<Rightarrow> (Inl e, s))) \<and>
    (request_stage env this c (w1, snd st) = ((Inr final, cur), st3) \<longrightarrow>
     transport env final (fst st3) = (Inr res, w4) \<longrightarrow>
     handleServerError res = Inr res1 \<longrightarrow>
     responsePipe env this w4 res1 final (w4, snd st3 @ [Transported final]) = (Inr res2, st5) \<longrightarrow>
     unwrap_step env (handleResponse c) res2 (fst st5) = (Inr v, w6) \<longrightarrow>
     parse_response env (responseSchema c) v w6 = (Inl t, w7) \<longrightarrow>
       fetch env this callConfig st =
         (case error_path env this t final AtResponse (w7, snd st5) of (e, s) \<Rightarrow> (Inl e, s))) \<and>
    error_path env this t req stg st8 =
      (case coerceError env t of
         Inl t' \<Rightarrow> (t', st8)
       | Inr coercedError \<Rightarrow>
           (case createErrorPipe env (getInterceptors env this EvError (fst st8)) coercedError req stg
                   (get_stack env) st8 of
              (Inl t', s) \<Rightarrow> (t', s)
            | (Inr e, s) \<Rightarrow> (ErrorV e, s))) \<and>
    coerceError env (ErrorV e0) = Inr e0 \<and>
    (json_message env v0 = Inr m \<longrightarrow> coerceError env (OtherV v0) = Inr (Error ''Error'' m)) \<and>
    (json_message env v0 = Inl t0 \<longrightarrow> coerceError env (OtherV v0) = Inl t0)"
proof (intro conjI impI)
  assume "validate env (paramSchema c) (bodySchema c) (paramsInput c) (bodyInput c) w1 = (Inl t, w2)"
  then have "request_stage env this c (w1, snd st) = ((Inl t, initialRequest c), (w2, snd st))"
    by (simp add: request_stage_validation_failure)
  then show "fetch env this callConfig st =
      (case error_path env this t (initialRequest c) AtRequest (w2, snd st) of (e, s) \<Rightarrow> (Inl e, s))"
    by (rule fetch_request_rejects[OF assms])
next
  assume "validate env (paramSchema c) (bodySchema c) (paramsInput c) (bodyInput c) w1 = (Inr (ps, b), w2)"
    and "build env (stringUrl c) (nativeConfig c) ps b = Inl t"
  then have "request_stage env this c (w1, snd st) = ((Inl t, initialRequest c), (w2, snd st))"
    by (simp add: request_stage_build_failure)
  then show "fetch env this callConfig st =
      (case error_path env this t (initialRequest c) AtRequest (w2, snd st) of (e, s) \<Rightarrow> (Inl e, s))"
    by (rule fetch_request_rejects[OF assms])
next
  assume "validate env (paramSchema c) (bodySchema c) (paramsInput c) (bodyInput c) w1 = (Inr (ps, b), w2)"
    and "build env (stringUrl c) (nativeConfig c) ps b = Inr built"
    and "requestPipe env this w2 built (get_stack env) (w2, snd st) = (Inl t, st2)"
  then have "request_stage env this c (w1, snd st) = ((Inl t, built), st2)"
    by (simp add: request_stage_intercept_failure)
  then show "fetch env this callConfig st =
      (case error_path env this t built AtRequest st2 of (e, s) \<Rightarrow> (Inl e, s))"
    by (rule fetch_request_rejects[OF assms])
next
  assume rs: "request_stage env this c (w1, snd st) = ((Inr final, cur), st3)"
    and "transport env final (fst st3) = (Inl t, w4)"
  then have "response_stage env this c final st3 = (Inl t, (w4, snd st3 @ [Transported final]))"
    by (simp add: response_stage_transport_failure)
  then show "fetch env this callConfig st =
      (case error_path env this t final AtResponse (w4, snd st3 @ [Transported final]) of
         (e, s) \<Rightarrow> (Inl e, s))"
    by (rule fetch_response_rejects[OF assms rs])
next
  assume rs: "request_stage env this c (w1, snd st) = ((Inr final, cur), st3)"
    and "transport env final (fst st3) = (Inr res, w4)" "handleServerError res = Inl t"
  then have "response_stage env this c final st3 = (Inl t, (w4, snd st3 @ [Transported final]))"
    by (simp add: response_stage_status_failure)
  then show "fetch env this callConfig st =
      (case error_path env this t final AtResponse (w4, snd st3 @ [Transported final]) of
         (e, s) \<Rightarrow> (Inl e, s))"
    by (rule fetch_response_rejects[OF assms rs])
next
  assume rs: "request_stage env this c (w1, snd st) = ((Inr final, cur), st3)"
    and "transport env final (fst st3) = (Inr res, w4)" "handleServerError res = Inr res1"
    and "responsePipe env this w4 res1 final (w4, snd st3 @ [Transported final]) = (Inl t, st5)"
  then have "response_stage env this c final st3 = (Inl t, st5)"
    by (simp add: response_stage_intercept_failure)
  then show "fetch env this callConfig st =
      (case error_path env this t final AtResponse st5 of (e, s) \<Rightarrow> (Inl e, s))"
    by (rule fetch_response_rejects[OF assms rs])
next
  assume rs: "request_stage env this c (w1, snd st) = ((Inr final, cur), st3)"
    and "transport env final (fst st3) = (Inr res, w4)" "handleServerError res = Inr res1"
    and "responsePipe env this w4 res1 final (w4, snd st3 @ [Transported final]) = (Inr res2, st5)"
    and "unwrap_step env (handleResponse c) res2 (fst st5) = (Inl t, w6)"
  then have "response_stage env this c final st3 = (Inl t, (w6, snd st5))"
    by (simp add: response_stage_unwrap_failure)
  then show "fetch env this callConfig st =
      (case error_path env this t final AtResponse (w6, snd st5) of (e, s) \<Rightarrow> (Inl e, s))"
    by (rule fetch_response_rejects[OF assms rs])
next
  assume rs: "request_stage env this c (w1, snd st) = ((Inr final, cur), st3)"
    and "transport env final (fst st3) = (Inr res, w4)" "handleServerError res = Inr res1"
    and "responsePipe env this w4 res1 final (w4, snd st3 @ [Transported final]) = (Inr res2, st5)"
    and "unwrap_step env (handleResponse c) res2 (fst st5) = (Inr v, w6)"
    and "parse_response env (responseSchema c) v w6 = (Inl t, w7)"
  then have "response_stage env this c final st3 = (Inl t, (w7, snd st5))"
    by (simp add: response_stage_validation_failure)
  then show "fetch env this callConfig st =
      (case error_path env this t final AtResponse (w7, snd st5) of (e, s) \<Rightarrow> (Inl e, s))"
    by (rule fetch_response_rejects[OF assms rs])
next
  show "error_path env this t req stg st8 =
      (case coerceError env t of
         Inl t' \<Rightarrow> (t', st8)
       | Inr coercedError \<Rightarrow>
           (case createErrorPipe env (getInterceptors env this EvError (fst st8)) coercedError req stg
                   (get_stack env) st8 of
              (Inl t', s) \<Rightarrow> (t', s)
            | (Inr e, s) \<Rightarrow> (ErrorV e, s)))"
    unfolding error_path_eq errorPipe_def by (rule refl)
next
  show "coerceError env (ErrorV e0) = Inr e0" by (simp add: coerceError_def)
next
  assume "json_message env v0 = Inr m"
  then show "coerceError env (OtherV v0) = Inr (Error ''Error'' m)"
    by (simp add: coerceError_def)
next
  assume "json_message env v0 = Inl t0"
  then show "coerceError env (OtherV v0) = Inl t0"
    by (simp add: coerceError_def)
qed

text \<open>
  C4, on a platform without a base URL, for an instance whose \<open>url\<close> is relative and whose
  chain has the error interceptor 5: the first \<open>new Request(stringUrl, nativeConfig)\<close>
  throws before there is a promise chain to catch it, so the call rejects with the
  \<open>TypeError\<close> as it is and no interceptor is called. The same constructor failing inside
  the chain (a body on a \<open>GET\<close> request) is routed: the interceptor is called, at stage
  "request". And when a request interceptor throws an object that refers to itself,
  \<open>coerceError\<close> throws inside the \<open>catch\<close>: the call rejects with the \<open>TypeError\<close> of
  \<open>JSON.stringify\<close> and the error interceptor is not called.
\<close>

theorem C4_request_construction_not_routed:
  "getInterceptors envNode leaf1 EvError worldC = [5] \<and>
   fst (go envNode leaf1 Map.empty (worldC, [])) = Inl (ErrorV (Error ''TypeError'' ''Invalid URL'')) \<and>
   intercepted (snd (snd (go envNode leaf1 Map.empty (worldC, [])))) = [] \<and>
   getInterceptors envG root1 EvError worldC = [5] \<and>
   fst (go envG root1 cfgB (worldC, []))
     = Inl (ErrorV (Error ''TypeError'' ''Request with GET/HEAD method cannot have body [request]'')) \<and>
   intercepted (snd (snd (go envG root1 cfgB (worldC, [])))) = [(EvError, 5)] \<and>
   getInterceptors envQ leaf1 EvError worldQ = [5] \<and>
   fst (go envQ leaf1 Map.empty (worldQ, []))
     = Inl (ErrorV (Error ''TypeError'' ''Converting circular structure to JSON'')) \<and>
   intercepted (snd (snd (go envQ leaf1 Map.empty (worldQ, [])))) = [(EvRequest, 4)]"
proof -
  have i: "getInterceptors envNode leaf1 EvError worldC = [5]"
    "getInterceptors envG root1 EvError worldC = [5]"
    "getInterceptors envQ leaf1 EvError worldQ = [5]"
    by (simp_all add: getInterceptors_chain leaf1_def mid1_def root1_def worldC_def worldQ_def world1_def)
  have n: "fst (go envNode leaf1 Map.empty (worldC, [])) = Inl (ErrorV (Error ''TypeError'' ''Invalid URL''))"
    "intercepted (snd (snd (go envNode leaf1 Map.empty (worldC, [])))) = []"
    by (simp_all add: go_relative_url intercepted_def)
  from i n go_body_on_get go_cyclic show ?thesis by simp
qed

text \<open>
  C7, with an object as \<open>override\<close>: calling it throws a \<open>TypeError\<close>, the call rejects
  with it and nothing is sent.
\<close>

theorem C7_object_override_rejects:
  "fst (go env0 leaf1 cfgO (world1, []))
     = Inl (ErrorV (Error ''TypeError'' ''callConfig.override is not a function'')) \<and>
   transported_urls (snd (snd (go env0 leaf1 cfgO (world1, [])))) = []"
  by (simp add: go_object_override transported_urls_def)

lemma prepare_unparsed:
  assumes "config env this w = (a, w1)"
    and "override_fragment env (get_prop callConfig ''override'') (deref (heap w1) a) = Inr ov"
    and "get_prop (merge_config (deref (heap w1) a) callConfig ov) ''url'' = JUndefined"
    and "parse_url env missing_url = None"
  shows "prepare env this callConfig w = (Inl (type_error ''Invalid URL''), w1)"
  using assms by (simp add: prepare_def Let_def string_url_missing new_Request_def)

lemma prepare_parsed:
  assumes "config env this w = (a, w1)"
    and "override_fragment env (get_prop callConfig ''override'') (deref (heap w1) a) = Inr ov"
    and "get_prop (merge_config (deref (heap w1) a) callConfig ov) ''url'' = JUndefined"
    and "parse_url env missing_url = Some u"
    and "init_error env (native_config (merge_config (deref (heap w1) a) callConfig ov)) = None"
    and "get_prop (deref (heap w1) a) ''params'' = JSchema ps"
    and "get_prop (deref (heap w1) a) ''body'' = JSchema bs"
  shows "prepare env this callConfig w =
     (Inr \<lparr>paramSchema = ps, bodySchema = bs,
           responseSchema = get_prop (deref (heap w1) a) ''response'',
           handleResponse = get_prop (deref (heap w1) a) ''handleResponse'',
           bodyInput = get_prop (merge_config (deref (heap w1) a) callConfig ov) ''body'',
           paramsInput = get_prop (merge_config (deref (heap w1) a) callConfig ov) ''params'',
           stringUrl = missing_url,
           nativeConfig = native_config (merge_config (deref (heap w1) a) callConfig ov),
           initialRequest =
             \<lparr>req_url = u,
              req_init = native_config (merge_config (deref (heap w1) a) callConfig ov)\<rparr>\<rparr>, w1)"
  using assms by (simp add: prepare_def Let_def string_url_missing new_Request_def schema_of_def)

lemma append_values:
  "foldl (\<lambda>u' v. append_param u' key v) u vs = u\<lparr>url_search := url_search u @ map (Pair key) vs\<rparr>"
  by (induction vs arbitrary: u) (simp_all add: append_param_def)

lemma append_entries:
  "foldl (\<lambda>u (key, value). foldl (\<lambda>u' v. append_param u' key v) u (flat1 value)) u ps
     = u\<lparr>url_search := url_search u @ concat (map (\<lambda>(key, value). map (Pair key) (flat1 value)) ps)\<rparr>"
  by (induction ps arbitrary: u) (simp_all add: append_values case_prod_unfold)

lemma build_parsed:
  assumes "parse_url env s = Some u"
    and "init_error env Map.empty = None"
    and "init_error env (nc(''body'' \<mapsto> b)) = None"
  shows "build env s nc pv b =
     Inr \<lparr>req_url = u\<lparr>url_search := url_search u
                @ concat (map (\<lambda>(key, value). map (Pair key) (flat1 value)) pv)\<rparr>,
          req_init = nc(''body'' \<mapsto> b)\<rparr>"
  using assms by (simp add: build_def setUrlParams_def new_Request_def append_entries)

text \<open>
  C10, as stated, on a platform without a base URL: no instance sets \<open>url\<close>, the call
  config is empty, and the placeholder does not parse as a URL; the call rejects with
  the \<open>TypeError\<close> of the \<open>Request\<close> constructor and the transport is never called.
\<close>

theorem C10_counterexample:
  "closest (heap worldN) instN ''url'' = None \<and>
   fst (go envNode instN Map.empty (worldN, [])) = Inl (ErrorV (Error ''TypeError'' ''Invalid URL'')) \<and>
   transported_urls (snd (snd (go envNode instN Map.empty (worldN, [])))) = []"
proof -
  have "closest (heap worldN) instN ''url'' = None"
    by (simp add: instN_def worldN_def world1_def deref_def)
  moreover have "fst (go envNode instN Map.empty (worldN, []))
      = Inl (ErrorV (Error ''TypeError'' ''Invalid URL''))"
    by (simp add: go_no_url_node)
  moreover have "transported_urls (snd (snd (go envNode instN Map.empty (worldN, [])))) = []"
    by (simp add: go_no_url_node transported_urls_def)
  ultimately show ?thesis by simp
qed

text \<open>
  C10 (amended): when the chain, the call config and the override all leave \<open>url\<close>
  undefined, the call is the call made with the placeholder as its \<open>url\<close>. Where the
  URL parser rejects the placeholder, the call rejects with the \<open>TypeError\<close> of the
  \<open>Request\<close> constructor, the transport not called. Where the parser accepts it, the
  constructor accepts the options (with and without the body), the schemas are
  schemas, validation passes and the request interceptors settle, the transport is
  called, right after them, with the request they return; they are given the request
  whose URL is the parsed placeholder with the validated params appended.
\<close>

theorem C10_missing_url_placeholder:
  assumes "config env this w = (a, w1)"
    and "(case closest (heap w) this ''url'' of None \<Rightarrow> JUndefined | Some v \<Rightarrow> v) = JUndefined"
    and "get_prop callConfig ''url'' = JUndefined"
    and "\<forall>ov. override_fragment env (get_prop callConfig ''override'') (deref (heap w1) a) = Inr ov
                 \<longrightarrow> get_prop ov ''url'' = JUndefined"
  shows "fetch env this callConfig (w, tr)
           = fetch env this (callConfig(''url'' \<mapsto> JStr missing_url)) (w, tr) \<and>
         (override_fragment env (get_prop callConfig ''override'') (deref (heap w1) a) = Inr ov \<longrightarrow>
          parse_url env missing_url = None \<longrightarrow>
            fetch env this callConfig (w, tr) = (Inl (type_error ''Invalid URL''), (w1, tr))) \<and>
         (override_fragment env (get_prop callConfig ''override'') (deref (heap w1) a) = Inr ov \<longrightarrow>
          parse_url env missing_url = Some u \<longrightarrow>
          init_error env (native_config (merge_config (deref (heap w1) a) callConfig ov)) = None \<longrightarrow>
          init_error env Map.empty = None \<longrightarrow>
          init_error env ((native_config (merge_config (deref (heap w1) a) callConfig ov))(''body'' \<mapsto> b)) = None \<longrightarrow>
          get_prop (deref (heap w1) a) ''params'' = JSchema ps \<longrightarrow>
          get_prop (deref (heap w1) a) ''body'' = JSchema bs \<longrightarrow>
          validate env ps bs (get_prop (merge_config (deref (heap w1) a) callConfig ov) ''params'')
              (get_prop (merge_config (deref (heap w1) a) callConfig ov) ''body'') w1
            = (Inr (pv, b), w2) \<longrightarrow>
          requestPipe env this w2
              \<lparr>req_url = u\<lparr>url_search := url_search u
                   @ concat (map (\<lambda>(key, value). map (Pair key) (flat1 value)) pv)\<rparr>,
               req_init = (native_config (merge_config (deref (heap w1) a) callConfig ov))(''body'' \<mapsto> b)\<rparr>
              (get_stack env) (w2, tr)
            = (Inr final, st2) \<longrightarrow>
            (\<exists>xs. snd (snd (fetch env this callConfig (w, tr))) = snd st2 @ Transported final # xs))"
proof (intro conjI impI)
  have ov': "\<forall>ov. override_fragment env (get_prop callConfig ''override'')
                   (deref (heap (snd (config env this w))) (fst (config env this w))) = Inr ov
                 \<longrightarrow> get_prop ov ''url'' = JUndefined"
    using assms(1,4) by simp
  show "fetch env this callConfig (w, tr)
           = fetch env this (callConfig(''url'' \<mapsto> JStr missing_url)) (w, tr)"
    unfolding fetch_def fst_conv snd_conv prepare_url_explicit[OF assms(2,3) ov'] by (rule refl)
next
  assume o: "override_fragment env (get_prop callConfig ''override'') (deref (heap w1) a) = Inr ov"
    and p: "parse_url env missing_url = None"
  from instance_url[of env this w] assms(1,2)
  have ic: "get_prop (deref (heap w1) a) ''url'' = JUndefined" by simp
  from assms(4) o have "get_prop ov ''url'' = JUndefined" by simp
  with ic assms(3)
  have m: "get_prop (merge_config (deref (heap w1) a) callConfig ov) ''url'' = JUndefined"
    by (intro merged_url_undefined)
  from prepare_unparsed[OF assms(1) o m p]
  show "fetch env this callConfig (w, tr) = (Inl (type_error ''Invalid URL''), (w1, tr))"
    by (simp add: fetch_def)
next
  let ?m = "merge_config (deref (heap w1) a) callConfig ov"
  let ?r = "\<lparr>req_url = u\<lparr>url_search := url_search u
                   @ concat (map (\<lambda>(key, value). map (Pair key) (flat1 value)) pv)\<rparr>,
             req_init = (native_config ?m)(''body'' \<mapsto> b)\<rparr>"
  assume o: "override_fragment env (get_prop callConfig ''override'') (deref (heap w1) a) = Inr ov"
    and p: "parse_url env missing_url = Some u"
    and i1: "init_error env (native_config ?m) = None"
    and i2: "init_error env Map.empty = None"
    and i3: "init_error env ((native_config ?m)(''body'' \<mapsto> b)) = None"
    and ps: "get_prop (deref (heap w1) a) ''params'' = JSchema ps"
    and bs: "get_prop (deref (heap w1) a) ''body'' = JSchema bs"
    and v: "validate env ps bs (get_prop ?m ''params'') (get_prop ?m ''body'') w1 = (Inr (pv, b), w2)"
    and rp: "requestPipe env this w2 ?r (get_stack env) (w2, tr) = (Inr final, st2)"
  from instance_url[of env this w] assms(1,2)
  have ic: "get_prop (deref (heap w1) a) ''url'' = JUndefined" by simp
  from assms(4) o have "get_prop ov ''url'' = JUndefined" by simp
  with ic assms(3) have m: "get_prop ?m ''url'' = JUndefined"
    by (intro merged_url_undefined)
  note prep = prepare_parsed[OF assms(1) o m p i1 ps bs]
  have b: "build env missing_url (native_config ?m) pv b = Inr ?r"
    by (rule build_parsed[OF p i2 i3])
  from v b rp
  have "request_stage env this
          \<lparr>paramSchema = ps, bodySchema = bs,
           responseSchema = get_prop (deref (heap w1) a) ''response'',
           handleResponse = get_prop (deref (heap w1) a) ''handleResponse'',
           bodyInput = get_prop ?m ''body'', paramsInput = get_prop ?m ''params'',
           stringUrl = missing_url, nativeConfig = native_config ?m,
           initialRequest = \<lparr>req_url = u, req_init = native_config ?m\<rparr>\<rparr> (w1, tr)
        = ((Inr final, final), st2)"
    by (simp add: request_stage_def)
  with prep show "\<exists>xs. snd (snd (fetch env this callConfig (w, tr))) = snd st2 @ Transported final # xs"
    by (rule fetch_transported_next)
qed

theorem C10_witness:
  "fetch env0 instN Map.empty (worldN, [])
     = fetch env0 instN [''url'' \<mapsto> JStr ''somehow a missing URL found its way''] (worldN, []) \<and>
   Transported \<lparr>req_url = \<lparr>url_base = ''somehow a missing URL found its way'', url_search = []\<rparr>,
                req_init = [''method'' \<mapsto> JStr ''GET'', ''body'' \<mapsto> JUndefined]\<rparr>
     \<in> set (snd (snd (fetch env0 instN Map.empty (worldN, [])))) \<and>
   fetch envNode instN Map.empty (worldN, [])
     = (Inl (type_error ''Invalid URL''), (snd (config envNode instN worldN), []))"
proof -
  define a where "a = fst (config env0 instN worldN)"
  define w1 where "w1 = snd (config env0 instN worldN)"
  define r where "r = \<lparr>req_url = \<lparr>url_base = ''somehow a missing URL found its way'', url_search = []\<rparr>,
                req_init = [''method'' \<mapsto> JStr ''GET'', ''body'' \<mapsto> JUndefined]\<rparr>"
  have cfg: "config env0 instN worldN = (a, w1)" by (simp add: a_def w1_def)
  have ic: "deref (heap w1) a
      = [''method'' \<mapsto> JStr ''GET'', ''params'' \<mapsto> JSchema ZUnknown, ''body'' \<mapsto> JSchema ZUnknown,
         ''response'' \<mapsto> JSchema ZUnknown]"
    unfolding a_def w1_def
    by (rule ext) (simp add: call_defs example_defs instN_def worldN_def)
  have h1: "(case closest (heap worldN) instN ''url'' of None \<Rightarrow> JUndefined | Some v \<Rightarrow> v) = JUndefined"
    by (simp add: instN_def worldN_def world1_def deref_def)
  have h2: "get_prop Map.empty ''url'' = JUndefined" by (simp add: get_prop_def)
  have h3: "\<forall>ov. override_fragment env0 (get_prop Map.empty ''override'') (deref (heap w1) a) = Inr ov
                 \<longrightarrow> get_prop ov ''url'' = JUndefined"
    by (auto simp: override_fragment_def get_prop_def nullish_def)
  note t = C10_missing_url_placeholder [OF cfg h1 h2 h3, where tr = "[]" and ov = Map.empty
      and u = "\<lparr>url_base = ''somehow a missing URL found its way'', url_search = []\<rparr>"
      and b = JUndefined and ps = ZUnknown and bs = ZUnknown and pv = "[]" and ?w2.0 = w1
      and final = r and ?st2.0 = "(w1, [])"]
  have o: "override_fragment env0 (get_prop Map.empty ''override'') (deref (heap w1) a) = Inr Map.empty"
    by (simp add: override_fragment_def get_prop_def nullish_def)
  have m: "merge_config (deref (heap w1) a) Map.empty Map.empty = [''method'' \<mapsto> JStr ''GET'']"
    unfolding ic by (rule ext) (simp add: merge_config_apply)
  have nc: "native_config [''method'' \<mapsto> JStr ''GET''] = [''method'' \<mapsto> JStr ''GET'']"
    by (rule ext) (simp add: native_config_apply)
  have p: "parse_url env0 missing_url
      = Some \<lparr>url_base = ''somehow a missing URL found its way'', url_search = []\<rparr>"
    by (simp add: env0_def missing_url_def)
  have i: "init_error env0 x = None" for x by (simp add: env0_def)
  have s: "get_prop (deref (heap w1) a) ''params'' = JSchema ZUnknown"
    "get_prop (deref (heap w1) a) ''body'' = JSchema ZUnknown"
    unfolding ic by (simp_all add: get_prop_def)
  have v: "validate env0 ZUnknown ZUnknown (get_prop [''method'' \<mapsto> JStr ''GET''] ''params'')
      (get_prop [''method'' \<mapsto> JStr ''GET''] ''body'') w1 = (Inr ([], JUndefined), w1)"
    by (simp add: validate_def parse_params_def parseAsync_def baseParamSchema_def get_prop_def
        addErrorMap_def Let_def)
  have g: "getInterceptors env0 instN EvRequest w1 = []"
    unfolding w1_def
    by (simp add: getInterceptors_chain call_defs example_defs instN_def worldN_def)
  have rp: "requestPipe env0 instN w1
      \<lparr>req_url = \<lparr>url_base = ''somehow a missing URL found its way'', url_search = []\<rparr>
          \<lparr>url_search := url_search \<lparr>url_base = ''somehow a missing URL found its way'', url_search = []\<rparr>
             @ concat (map (\<lambda>(key, value). map (Pair key) (flat1 value)) [])\<rparr>,
       req_init = [''method'' \<mapsto> JStr ''GET'', ''body'' \<mapsto> JUndefined]\<rparr>
      (get_stack env0) (w1, []) = (Inr r, (w1, []))"
    by (simp add: requestPipe_def g createRequestPipe_def reduce_async_Nil r_def)
  from t[THEN conjunct2, THEN conjunct2, rule_format, unfolded m nc, OF o p i i i s v rp]
  have two: "Transported r \<in> set (snd (snd (fetch env0 instN Map.empty (worldN, []))))"
    by auto
  from t[THEN conjunct1]
  have one: "fetch env0 instN Map.empty (worldN, [])
     = fetch env0 instN [''url'' \<mapsto> JStr ''somehow a missing URL found its way''] (worldN, [])"
    by (simp add: missing_url_def)
  have cfg': "config envNode instN worldN
      = (fst (config envNode instN worldN), snd (config envNode instN worldN))" by simp
  have h3': "\<forall>ov. override_fragment envNode (get_prop Map.empty ''override'')
                   (deref (heap (snd (config envNode instN worldN))) (fst (config envNode instN worldN))) = Inr ov
                 \<longrightarrow> get_prop ov ''url'' = JUndefined"
    by (auto simp: override_fragment_def get_prop_def nullish_def)
  have o': "override_fragment envNode (get_prop Map.empty ''override'')
      (deref (heap (snd (config envNode instN worldN))) (fst (config envNode instN worldN))) = Inr Map.empty"
    by (simp add: override_fragment_def get_prop_def nullish_def)
  have p': "parse_url envNode missing_url = None"
    by (simp add: envNode_def env0_def missing_url_def absolute_url_def)
  from C10_missing_url_placeholder [where tr = "[]" and ov = Map.empty, OF cfg' h1 h2 h3',
      THEN conjunct2, THEN conjunct1, rule_format, OF o' p']
  have three: "fetch envNode instN Map.empty (worldN, [])
     = (Inl (type_error ''Invalid URL''), (snd (config envNode instN worldN), []))" .
  from one two three show ?thesis unfolding r_def by simp
qed

section \<open>The status check\<close>

lemma read_show_nat: "read_nat (show_nat n) = n"
proof (induction n rule: show_nat.induct)
  case (1 n)
  show ?case
  proof (cases "n < 10")
    case True
    then show ?thesis
      by (simp add: show_nat.simps[of n] read_nat_def of_char_digit)
  next
    case False
    with 1 have "read_nat (show_nat (n div 10)) = n div 10" by simp
    with False show ?thesis
      by (simp add: show_nat.simps[of n] read_nat_def of_char_digit)
  qed
qed

lemma show_nat_404: "show_nat 404 = ''404''"
  by (simp add: show_nat.simps digit_def char_of_eq_iff)

text \<open>
  C5, as stated, at a 500 response whose body cannot be read: the rejection is the
  failure of \<open>res.text()\<close>, which carries neither the status code nor the status text.
\<close>

theorem C5_counterexample:
  "status res500 = 500 \<and>
   handleServerError res500 = Inl (ErrorV (Error ''TypeError'' ''body stream errored''))"
  by (simp add: res500_def handleServerError_def ok_def)

text \<open>
  C5 (amended): the status check passes a response with status in 200..299 through
  unmodified. For any other status it rejects: when the body reads as text, with an
  \<open>Error\<close> (name \<open>Error\<close>) whose message holds the exact status code in decimal, the
  response type, the status text and the body text; when reading the body fails, with
  that failure.
\<close>

theorem C5_status_check:
  "(200 \<le> status res \<and> status res \<le> 299 \<longrightarrow> handleServerError res = Inr res) \<and>
   (\<not> (200 \<le> status res \<and> status res \<le> 299) \<longrightarrow> text_read res = Inr body \<longrightarrow>
      handleServerError res =
        Inl (ErrorV (Error ''Error''
          (''code: '' @ show_nat (status res) @ '', type: '' @ rtype res @ '', text: '' @ [CHR 0x22]
             @ statusText res @ '', server-response: '' @ body)))) \<and>
   (\<not> (200 \<le> status res \<and> status res \<le> 299) \<longrightarrow> text_read res = Inl t \<longrightarrow>
      handleServerError res = Inl t) \<and>
   read_nat (show_nat (status res)) = status res"
  by (simp add: handleServerError_def ok_def status_message_def read_show_nat)

theorem C5_witness:
  "handleServerError res200 = Inr res200 \<and>
   handleServerError res404 =
     Inl (ErrorV (Error ''Error''
       (''code: 404, type: basic, text: '' @ [CHR 0x22] @ ''Not Found, server-response: no such user'')))"
  using C5_status_check [of res200] C5_status_check [of res404 "''no such user''"]
  by (simp add: res200_def res404_def show_nat_404)

section \<open>URL parameters\<close>














section \<open>When the pipelines are built\<close>








end
